theory Spec2Isabelle
  imports Complex_Main
begin

section \<open>Data of the terminal driver\<close>

text \<open>
  The embedding follows \<^verbatim>\<open>mt5-service/smart_queue_service.py\<close>.  Prices, volumes and money
  amounts are Python floats; they are embedded as the \<^typ>\<open>real\<close> numbers they denote, and
  the rounding of a float operation is not part of the model, except where a property hangs
  on it: the two additions of the net result and the accumulator of the wait loop are
  rounded as binary64 rounds.  Instants (\<^verbatim>\<open>datetime\<close> values) are
  integers counting milliseconds, durations likewise.  The driver reports times as unix
  seconds; \<^verbatim>\<open>datetime.fromtimestamp\<close> is the conversion to an instant and is taken to succeed
  on every time the driver reports.
\<close>

type_synonym instant = int

definition fromtimestamp :: "int \<Rightarrow> instant" where
  "fromtimestamp t = 1000 * t"

datatype position_type = POSITION_TYPE_BUY | POSITION_TYPE_SELL

datatype deal_entry = DEAL_ENTRY_IN | DEAL_ENTRY_OUT | DEAL_ENTRY_INOUT | DEAL_ENTRY_OUT_BY

datatype deal_type = DEAL_TYPE_BUY | DEAL_TYPE_SELL | DEAL_TYPE_OTHER nat

text \<open>A position as \<^verbatim>\<open>mt5.positions_get\<close> returns it (the fields the service reads).\<close>

record position =
  pos_ticket :: int
  pos_symbol :: string
  pos_type :: position_type
  pos_volume :: real
  pos_price_open :: real
  pos_price_current :: real
  pos_sl :: real
  pos_tp :: real
  pos_profit :: real
  pos_swap :: real
  pos_time :: int

text \<open>A deal of \<^verbatim>\<open>mt5.history_deals_get\<close> and an order of \<^verbatim>\<open>mt5.history_orders_get\<close>.\<close>

record deal =
  deal_position_id :: int
  deal_entry :: deal_entry
  deal_type :: deal_type
  deal_symbol :: string
  deal_volume :: real
  deal_price :: real
  deal_time :: int
  deal_profit :: real
  deal_commission :: real
  deal_swap :: real

record order =
  order_position_id :: int
  order_sl :: real
  order_tp :: real
  order_price_current :: real
  order_time_done :: int

text \<open>
  The driver is the environment of the service.  A history query answers with a tuple or
  with \<^verbatim>\<open>None\<close> (it reports a failure through \<^verbatim>\<open>last_error\<close> and does not raise); the
  service only ever tests the answer for truth and iterates over it, so \<^verbatim>\<open>None\<close> and the
  empty tuple are both the empty list.  The answers are eventually
  consistent: they depend on the moment of the call, which is the number of history
  queries made before it (first argument), and on the window asked for.  \<open>latency\<close> is the
  time the \<open>k\<close>-th query takes.
\<close>

record driver =
  initialize :: bool
  login :: "int \<Rightarrow> string \<Rightarrow> string \<Rightarrow> bool"
  positions_get :: "position list"
  history_deals_get :: "nat \<Rightarrow> instant \<Rightarrow> instant \<Rightarrow> deal list"
  history_orders_get :: "nat \<Rightarrow> instant \<Rightarrow> instant \<Rightarrow> order list"
  latency :: "nat \<Rightarrow> nat"

section \<open>Data of the service\<close>

text \<open>Class \<^verbatim>\<open>PositionSnapshot\<close>.\<close>

record snapshot =
  snap_ticket :: int
  snap_symbol :: string
  snap_type :: string
  snap_volume :: real
  snap_price_open :: real
  snap_price_current :: real
  snap_sl :: real
  snap_tp :: real
  snap_profit :: real
  snap_swap :: real
  snap_commission :: real
  snap_time :: instant
  snap_last_seen :: instant

definition PositionSnapshot :: "instant \<Rightarrow> position \<Rightarrow> snapshot" where
  "PositionSnapshot at_now p =
     \<lparr> snap_ticket = pos_ticket p,
       snap_symbol = pos_symbol p,
       snap_type = (if pos_type p = POSITION_TYPE_BUY then ''buy'' else ''sell''),
       snap_volume = pos_volume p,
       snap_price_open = pos_price_open p,
       snap_price_current = pos_price_current p,
       snap_sl = pos_sl p,
       snap_tp = pos_tp p,
       snap_profit = pos_profit p,
       snap_swap = pos_swap p,
       snap_commission = 0,
       snap_time = fromtimestamp (pos_time p),
       snap_last_seen = at_now \<rparr>"

text \<open>
  The dictionary a history source returns.  A key that only one of the two sources sets is
  an option (\<open>None\<close>: the key is absent, so \<^verbatim>\<open>data.get(key, default)\<close> gives the default).
  The values of \<^verbatim>\<open>'sl'\<close> and \<^verbatim>\<open>'tp'\<close> can themselves be Python's \<^verbatim>\<open>None\<close>, hence the
  second option: \<open>Some None\<close> is a key that is present with the value \<^verbatim>\<open>None\<close>.
\<close>

record data =
  d_source :: string
  d_accuracy :: string
  d_ticket :: int
  d_symbol :: "string option"
  d_volume :: "real option"
  d_exit_price :: real
  d_exit_time :: instant
  d_profit :: real
  d_swap :: real
  d_commission :: real
  d_entry_price :: "real option"
  d_entry_time :: "instant option"
  d_side :: "string option"
  d_sl :: "real option option"
  d_tp :: "real option option"

text \<open>
  The trade record handed to the callback.  The fields the risk calculator reads with
  \<^verbatim>\<open>trade_data.get\<close> are options (\<open>None\<close>: absent or \<^verbatim>\<open>None\<close>, which \<^verbatim>\<open>get\<close> does not
  tell apart), and so are the three fields it may add.  Instants stand for their ISO-8601
  rendering.
\<close>

record trade_record =
  user_id :: string
  account_id :: "string option"
  external_trade_id :: string
  symbol :: "string option"
  side :: string
  volume :: "real option"
  entry_price :: "real option"
  entry_time :: instant
  exit_price :: real
  exit_time :: instant
  gross_pnl :: "real option"
  commission :: real
  swap :: real
  net_pnl :: real
  stop_loss :: "real option"
  take_profit :: "real option"
  status :: string
  source :: string
  accuracy :: string
  risk_amount :: "real option"
  r_multiple :: "real option"
  risk_reward :: "real option"

text \<open>An entry of the positions list kept in the cache, and a cache entry.\<close>

record formatted_position =
  fp_ticket :: int
  fp_symbol :: string
  fp_type :: string
  fp_volume :: real
  fp_price_open :: real
  fp_price_current :: real
  fp_sl :: "real option"
  fp_tp :: "real option"
  fp_profit :: real
  fp_swap :: real
  fp_time :: instant

record cache_entry =
  positions :: "formatted_position list"
  timestamp :: instant

text \<open>
  A poll request.  The callback is code of the consumer: it is named here, and calling it
  is recorded in the state.
\<close>

record request =
  req_user_id :: string
  req_login :: int
  req_password :: string
  req_server :: string
  req_account_id :: "string option"
  req_on_trade_closed :: "string option"

text \<open>What the service does to the outside, in order.\<close>

datatype event =
    Attempt int int int
  | DealsGet instant instant
  | OrdersGet instant instant
  | Sleep nat
  | Shutdown

text \<open>
  The state: the fields of \<^verbatim>\<open>SmartQueueManager\<close> and of its \<^verbatim>\<open>AccurateHistoryFetcher\<close>
  (\<open>last_warmup\<close>), the clock, the number of history queries made, the events, and the
  trade records delivered to callbacks.  A dictionary whose order matters is an
  association list in insertion order.
\<close>

record state =
  request_queue :: "request list"
  cache :: "string \<rightharpoonup> cache_entry"
  position_snapshots :: "string \<rightharpoonup> (int \<times> snapshot) list"
  last_warmup :: "instant option"
  worker_running :: bool
  now :: instant
  calls :: nat
  events :: "event list"
  delivered :: "(string \<times> trade_record) list"

section \<open>The history fetcher\<close>

definition sleep :: "nat \<Rightarrow> state \<Rightarrow> state" where
  "sleep ms s = s\<lparr> now := now s + int ms, events := events s @ [Sleep ms] \<rparr>"

definition history_deals_call :: "driver \<Rightarrow> instant \<Rightarrow> instant \<Rightarrow> state \<Rightarrow> deal list \<times> state" where
  "history_deals_call drv from_date to_date s =
     (history_deals_get drv (calls s) from_date to_date,
      s\<lparr> now := now s + int (latency drv (calls s)),
         calls := Suc (calls s),
         events := events s @ [DealsGet from_date to_date] \<rparr>)"

definition history_orders_call :: "driver \<Rightarrow> instant \<Rightarrow> instant \<Rightarrow> state \<Rightarrow> order list \<times> state" where
  "history_orders_call drv from_date to_date s =
     (history_orders_get drv (calls s) from_date to_date,
      s\<lparr> now := now s + int (latency drv (calls s)),
         calls := Suc (calls s),
         events := events s @ [OrdersGet from_date to_date] \<rparr>)"

definition minutes :: "int \<Rightarrow> int" where
  "minutes n = 60000 * n"

definition hours :: "int \<Rightarrow> int" where
  "hours n = 3600000 * n"

definition days :: "int \<Rightarrow> int" where
  "days n = 86400000 * n"

definition warmup_interval :: int where
  "warmup_interval = 30000"

text \<open>
  \<^verbatim>\<open>warm_history_cache\<close>: nothing when the last warm-up is less than 30 s old; otherwise one
  query over 90 days, \<open>last_warmup\<close> set to the instant read on entry, and 0.3 s of sleep.
\<close>

definition warm_history_cache :: "driver \<Rightarrow> state \<Rightarrow> state" where
  "warm_history_cache drv s =
     (let at_now = now s;
          warmed_recently = (case last_warmup s of
                               None \<Rightarrow> False
                             | Some t \<Rightarrow> at_now - t < warmup_interval)
      in if warmed_recently then s
         else let (warmup_deals, s1) = history_deals_call drv (at_now - days 90) at_now s
              in sleep 300 (s1\<lparr> last_warmup := Some at_now \<rparr>))"

text \<open>
  \<^verbatim>\<open>_get_sl_tp_from_orders\<close>: the first order of the last hour with the ticket's position id,
  a stop-loss or take-profit that is not positive being \<^verbatim>\<open>None\<close>.
\<close>

definition positive_or_None :: "real \<Rightarrow> real option" where
  "positive_or_None x = (if x > 0 then Some x else None)"

definition get_sl_tp_from_orders ::
  "driver \<Rightarrow> int \<Rightarrow> state \<Rightarrow> (real option \<times> real option) \<times> state" where
  "get_sl_tp_from_orders drv ticket s =
     (let from_date = now s - hours 1;
          (orders, s1) = history_orders_call drv from_date (now s) s
      in (case find (\<lambda>order. order_position_id order = ticket) orders of
            Some order \<Rightarrow> (positive_or_None (order_sl order), positive_or_None (order_tp order))
          | None \<Rightarrow> (None, None),
          s1))"

text \<open>
  The loop of \<^verbatim>\<open>_fetch_from_deals\<close> over the deals of the window: the pair is
  \<open>(entry_deal, exit_deal)\<close>, each overwritten by every later deal of its kind.
\<close>

fun scan_deals :: "int \<Rightarrow> deal list \<Rightarrow> deal option \<times> deal option \<Rightarrow> deal option \<times> deal option" where
  "scan_deals ticket [] found = found"
| "scan_deals ticket (deal # deals) (entry_deal, exit_deal) =
     scan_deals ticket deals
       (if deal_position_id deal = ticket then
          (if deal_entry deal = DEAL_ENTRY_IN then (Some deal, exit_deal)
           else if deal_entry deal = DEAL_ENTRY_OUT then (entry_deal, Some deal)
           else (entry_deal, exit_deal))
        else (entry_deal, exit_deal))"

definition deal_data :: "int \<Rightarrow> deal \<Rightarrow> data" where
  "deal_data ticket exit_deal =
     \<lparr> d_source = ''history_deals'',
       d_accuracy = ''100%'',
       d_ticket = ticket,
       d_symbol = Some (deal_symbol exit_deal),
       d_volume = Some (deal_volume exit_deal),
       d_exit_price = deal_price exit_deal,
       d_exit_time = fromtimestamp (deal_time exit_deal),
       d_profit = deal_profit exit_deal,
       d_swap = deal_swap exit_deal,
       d_commission = deal_commission exit_deal,
       d_entry_price = None,
       d_entry_time = None,
       d_side = None,
       d_sl = None,
       d_tp = None \<rparr>"

definition add_entry_data :: "deal option \<Rightarrow> data \<Rightarrow> data" where
  "add_entry_data entry_deal dat =
     (case entry_deal of
        None \<Rightarrow> dat
      | Some e \<Rightarrow>
          dat\<lparr> d_entry_price := Some (deal_price e),
               d_entry_time := Some (fromtimestamp (deal_time e)),
               d_commission := d_commission dat + deal_commission e,
               d_side := Some (if deal_type e = DEAL_TYPE_BUY then ''buy'' else ''sell'') \<rparr>)"

definition fetch_from_deals :: "driver \<Rightarrow> int \<Rightarrow> state \<Rightarrow> data option \<times> state" where
  "fetch_from_deals drv ticket s =
     (let from_date = now s - minutes 30;
          (deals, s1) = history_deals_call drv from_date (now s) s
      in if deals = [] then (None, s1)
         else
           let (entry_deal, exit_deal) = scan_deals ticket deals (None, None)
           in case exit_deal of
                None \<Rightarrow> (None, s1)
              | Some exit_d \<Rightarrow>
                  let (entry_deal', s2) =
                        (case entry_deal of
                           Some e \<Rightarrow> (Some e, s1)
                         | None \<Rightarrow>
                             let older_from = now s1 - days 7;
                                 (older_deals, s') = history_deals_call drv older_from from_date s1
                             in (find (\<lambda>deal. deal_position_id deal = ticket
                                          \<and> deal_entry deal = DEAL_ENTRY_IN) older_deals, s'));
                      dat = add_entry_data entry_deal' (deal_data ticket exit_d);
                      ((sl, tp), s3) = get_sl_tp_from_orders drv ticket s2
                  in (Some (dat\<lparr> d_sl := Some sl, d_tp := Some tp \<rparr>), s3))"

text \<open>
  \<^verbatim>\<open>_fetch_from_orders\<close>: the first order of the last 30 minutes with the ticket's position
  id; the money fields are summed over the deals of a second query of that window.
\<close>

fun sum_deals :: "int \<Rightarrow> deal list \<Rightarrow> real \<times> real \<times> real \<Rightarrow> real \<times> real \<times> real" where
  "sum_deals ticket [] totals = totals"
| "sum_deals ticket (deal # deals) (profit_t, commission_t, swap_t) =
     sum_deals ticket deals
       (if deal_position_id deal = ticket
        then (profit_t + deal_profit deal, commission_t + deal_commission deal,
              swap_t + deal_swap deal)
        else (profit_t, commission_t, swap_t))"

definition fetch_from_orders :: "driver \<Rightarrow> int \<Rightarrow> state \<Rightarrow> data option \<times> state" where
  "fetch_from_orders drv ticket s =
     (let from_date = now s - minutes 30;
          (orders, s1) = history_orders_call drv from_date (now s) s
      in case find (\<lambda>order. order_position_id order = ticket) orders of
           None \<Rightarrow> (None, s1)
         | Some order \<Rightarrow>
             let (deals, s2) = history_deals_call drv from_date (now s1) s1;
                 (profit_t, commission_t, swap_t) = sum_deals ticket deals (0, 0, 0)
             in (Some \<lparr> d_source = ''history_orders'',
                        d_accuracy = ''95-100%'',
                        d_ticket = ticket,
                        d_symbol = None,
                        d_volume = None,
                        d_exit_price = order_price_current order,
                        d_exit_time = fromtimestamp (order_time_done order),
                        d_profit = profit_t,
                        d_swap = swap_t,
                        d_commission = commission_t,
                        d_entry_price = None,
                        d_entry_time = None,
                        d_side = None,
                        d_sl = Some (positive_or_None (order_sl order)),
                        d_tp = Some (positive_or_None (order_tp order)) \<rparr>, s2))"

text \<open>
  \<^verbatim>\<open>get_closed_position_data\<close>.  \<open>attempts_from\<close> is the \<^verbatim>\<open>for\<close> loop from the attempt
  numbered \<open>attempt\<close> on: it logs the attempt, warms the cache, asks the deals source, then
  the orders source, and when both have nothing sleeps \<open>3 * attempt\<close> seconds unless this
  was the last attempt.
\<close>

function attempts_from :: "driver \<Rightarrow> int \<Rightarrow> int \<Rightarrow> int \<Rightarrow> state \<Rightarrow> data option \<times> state" where
  "attempts_from drv ticket max_retries attempt s =
     (if attempt < max_retries + 1 then
        let s0 = s\<lparr> events := events s @ [Attempt ticket attempt max_retries] \<rparr>;
            s1 = warm_history_cache drv s0;
            (found, s2) = fetch_from_deals drv ticket s1
        in (case found of
              Some dat \<Rightarrow> (Some dat, s2)
            | None \<Rightarrow>
                (let (found', s3) = fetch_from_orders drv ticket s2
                 in (case found' of
                       Some dat \<Rightarrow> (Some dat, s3)
                     | None \<Rightarrow>
                         attempts_from drv ticket max_retries (attempt + 1)
                           (if attempt < max_retries
                            then sleep (nat (3 * attempt * 1000)) s3 else s3))))
      else (None, s))"
  by pat_completeness auto
termination
  by (relation "measure (\<lambda>(drv, ticket, max_retries, attempt, s). nat (max_retries + 1 - attempt))") auto

declare attempts_from.simps [simp del]

definition get_closed_position_data :: "driver \<Rightarrow> int \<Rightarrow> int \<Rightarrow> state \<Rightarrow> data option \<times> state" where
  "get_closed_position_data drv ticket max_retries s = attempts_from drv ticket max_retries 1 s"

section \<open>The trade record and its risk metrics\<close>

text \<open>Python's \<^verbatim>\<open>needle in haystack\<close> on strings, and \<^verbatim>\<open>str\<close> of an integer.\<close>

fun starts_with :: "string \<Rightarrow> string \<Rightarrow> bool" where
  "starts_with [] ys = True"
| "starts_with (x # xs) [] = False"
| "starts_with (x # xs) (y # ys) = (x = y \<and> starts_with xs ys)"

fun str_contains :: "string \<Rightarrow> string \<Rightarrow> bool" where
  "str_contains needle [] = (needle = [])"
| "str_contains needle (y # ys) = (starts_with needle (y # ys) \<or> str_contains needle ys)"

fun str_nat :: "nat \<Rightarrow> string" where
  "str_nat n = (if n < 10 then [char_of (48 + n)]
                else str_nat (n div 10) @ [char_of (48 + n mod 10)])"

declare str_nat.simps [simp del]

definition str_int :: "int \<Rightarrow> string" where
  "str_int i = (if i < 0 then CHR ''-'' # str_nat (nat (- i)) else str_nat (nat i))"

text \<open>
  Python's float division raises \<^verbatim>\<open>ZeroDivisionError\<close> on a zero divisor (\<open>None\<close> here),
  where the division of HOL would give \<open>0\<close>.
\<close>

definition truediv :: "real \<Rightarrow> real \<Rightarrow> real option" where
  "truediv x y = (if y = 0 then None else Some (x / y))"

text \<open>The truth value of an optional float: \<^verbatim>\<open>None\<close> and \<^verbatim>\<open>0.0\<close> are false.\<close>

definition truthy :: "real option \<Rightarrow> bool" where
  "truthy v = (case v of None \<Rightarrow> False | Some x \<Rightarrow> x \<noteq> 0)"

text \<open>
  \<^verbatim>\<open>_calculate_risk_metrics\<close>.  The record is mutated field by field inside a
  \<^verbatim>\<open>try\<close>, so an exception leaves the fields set before it; the \<^verbatim>\<open>except\<close> clause only
  logs.  (\<^verbatim>\<open>exit_price\<close> is read and not used.)
\<close>

definition calculate_risk_metrics :: "trade_record \<Rightarrow> trade_record" where
  "calculate_risk_metrics t =
     (if \<not> (truthy (entry_price t) \<and> truthy (stop_loss t) \<and> truthy (volume t))
         \<or> stop_loss t = Some 0
      then t
      else
        case (entry_price t, stop_loss t, volume t) of
          (Some entry, Some sl, Some vol) \<Rightarrow>
            (let pip_value = (if str_contains ''JPY'' (case symbol t of None \<Rightarrow> [] | Some name \<Rightarrow> name)
                              then 0.01 else 0.0001 :: real)
             in case truediv \<bar>entry - sl\<bar> pip_value of
                  None \<Rightarrow> t
                | Some pips_risked \<Rightarrow>
                    (let risk = pips_risked * vol * 10;
                         t1 = t\<lparr> risk_amount := Some risk \<rparr>;
                         step2 = (case gross_pnl t of
                                    Some profit \<Rightarrow>
                                      if risk > 0
                                      then map_option (\<lambda>r. t1\<lparr> r_multiple := Some r \<rparr>)
                                             (truediv profit risk)
                                      else Some t1
                                  | None \<Rightarrow> Some t1)
                     in case step2 of
                          None \<Rightarrow> t1
                        | Some t2 \<Rightarrow>
                            (case take_profit t of
                               None \<Rightarrow> t2
                             | Some tp \<Rightarrow>
                                 if tp \<noteq> 0 \<and> tp > 0 then
                                   (case truediv \<bar>tp - entry\<bar> pip_value of
                                      None \<Rightarrow> t2
                                    | Some pips_to_tp \<Rightarrow>
                                        (case truediv pips_to_tp pips_risked of
                                           None \<Rightarrow> t2
                                         | Some rr \<Rightarrow> t2\<lparr> risk_reward := Some rr \<rparr>))
                                 else t2)))
        | _ \<Rightarrow> t)"

text \<open>
  The net result is the one value whose exactness is in question, so its two additions are
  the float additions they are: the sum of two binary64 numbers is the real sum rounded to
  53 significant bits, to the nearest, ties to even.  The exponent of a money amount is far
  from the limits of the format, so neither overflow nor gradual underflow is modelled.
\<close>

definition round_half_even :: "real \<Rightarrow> int" where
  "round_half_even q =
     (let f = \<lfloor>q\<rfloor>; r = q - of_int f
      in if r < 1 / 2 then f else if 1 / 2 < r then f + 1 else if even f then f else f + 1)"

definition round_binary64 :: "real \<Rightarrow> real" where
  "round_binary64 x =
     (if x = 0 then 0
      else
        let e = \<lfloor>log 2 \<bar>x\<bar>\<rfloor>;
            ulp = (if 52 \<le> e then 2 ^ nat (e - 52) else 1 / 2 ^ nat (52 - e))
        in of_int (round_half_even (x / ulp)) * ulp)"

definition fadd :: "real \<Rightarrow> real \<Rightarrow> real" where
  "fadd x y = round_binary64 (x + y)"

text \<open>
  The dictionary \<^verbatim>\<open>trade_data\<close> that \<^verbatim>\<open>_handle_closed_position\<close> builds from the fetched
  data, the snapshot standing in for the keys the data lacks.
\<close>

definition build_trade_data ::
  "string \<Rightarrow> string option \<Rightarrow> int \<Rightarrow> snapshot \<Rightarrow> data \<Rightarrow> trade_record" where
  "build_trade_data uid acct ticket snap dat =
     \<lparr> user_id = uid,
       account_id = acct,
       external_trade_id = ''mt5_'' @ str_int ticket,
       symbol = Some (case d_symbol dat of Some v \<Rightarrow> v | None \<Rightarrow> snap_symbol snap),
       side = (case d_side dat of Some v \<Rightarrow> v | None \<Rightarrow> snap_type snap),
       volume = Some (case d_volume dat of Some v \<Rightarrow> v | None \<Rightarrow> snap_volume snap),
       entry_price = Some (case d_entry_price dat of Some v \<Rightarrow> v | None \<Rightarrow> snap_price_open snap),
       entry_time = (case d_entry_time dat of Some v \<Rightarrow> v | None \<Rightarrow> snap_time snap),
       exit_price = d_exit_price dat,
       exit_time = d_exit_time dat,
       gross_pnl = Some (d_profit dat),
       commission = d_commission dat,
       swap = d_swap dat,
       net_pnl = fadd (fadd (d_profit dat) (d_commission dat)) (d_swap dat),
       stop_loss = (case d_sl dat of Some v \<Rightarrow> v | None \<Rightarrow> positive_or_None (snap_sl snap)),
       take_profit = (case d_tp dat of Some v \<Rightarrow> v | None \<Rightarrow> positive_or_None (snap_tp snap)),
       status = ''closed'',
       source = d_source dat,
       accuracy = d_accuracy dat,
       risk_amount = None,
       r_multiple = None,
       risk_reward = None \<rparr>"

section \<open>The worker's processing of one request\<close>

text \<open>
  \<^verbatim>\<open>_handle_closed_position\<close>: when the fetcher has nothing the handler returns at once;
  otherwise the record is built, enriched, and given to the callback if there is one.
  An exception of the callback is caught and logged, the call has happened all the same.
\<close>

definition handle_closed_position ::
  "driver \<Rightarrow> string \<Rightarrow> string option \<Rightarrow> int \<Rightarrow> snapshot \<Rightarrow> string option \<Rightarrow> state \<Rightarrow> state" where
  "handle_closed_position drv uid acct ticket snap on_trade_closed s =
     (let (found, s1) = get_closed_position_data drv ticket 3 s
      in case found of
           None \<Rightarrow> s1
         | Some dat \<Rightarrow>
             (let trade_data = calculate_risk_metrics (build_trade_data uid acct ticket snap dat)
              in case on_trade_closed of
                   None \<Rightarrow> s1
                 | Some callback \<Rightarrow> s1\<lparr> delivered := delivered s1 @ [(callback, trade_data)] \<rparr>))"

text \<open>Assignment to a key of a dictionary: the key keeps its place when it is there already.\<close>

fun dict_set :: "'k \<Rightarrow> 'v \<Rightarrow> ('k \<times> 'v) list \<Rightarrow> ('k \<times> 'v) list" where
  "dict_set k v [] = [(k, v)]"
| "dict_set k v ((k', v') # kvs) =
     (if k' = k then (k, v) # kvs else (k', v') # dict_set k v kvs)"

fun snapshot_positions :: "instant \<Rightarrow> position list \<Rightarrow> (int \<times> snapshot) list \<Rightarrow> (int \<times> snapshot) list" where
  "snapshot_positions at_now [] current = current"
| "snapshot_positions at_now (pos # rest) current =
     snapshot_positions at_now rest (dict_set (pos_ticket pos) (PositionSnapshot at_now pos) current)"

text \<open>
  The loop over the closed tickets, each with \<^verbatim>\<open>previous_snapshots[ticket]\<close>.  Python does
  not fix the order in which a set is iterated; the model takes the tickets in the order
  of the previous map.
\<close>

fun handle_closed_positions ::
  "driver \<Rightarrow> string \<Rightarrow> string option \<Rightarrow> string option \<Rightarrow> (int \<times> snapshot) list \<Rightarrow> state \<Rightarrow> state" where
  "handle_closed_positions drv uid acct on_trade_closed [] s = s"
| "handle_closed_positions drv uid acct on_trade_closed ((ticket, snap) # rest) s =
     handle_closed_positions drv uid acct on_trade_closed rest
       (handle_closed_position drv uid acct ticket snap on_trade_closed s)"

definition format_position :: "snapshot \<Rightarrow> formatted_position" where
  "format_position snap =
     \<lparr> fp_ticket = snap_ticket snap,
       fp_symbol = snap_symbol snap,
       fp_type = snap_type snap,
       fp_volume = snap_volume snap,
       fp_price_open = snap_price_open snap,
       fp_price_current = snap_price_current snap,
       fp_sl = positive_or_None (snap_sl snap),
       fp_tp = positive_or_None (snap_tp snap),
       fp_profit = snap_profit snap,
       fp_swap = snap_swap snap,
       fp_time = snap_time snap \<rparr>"

text \<open>
  \<^verbatim>\<open>_process_request\<close>.  A failed \<^verbatim>\<open>initialize\<close> or \<^verbatim>\<open>login\<close> returns before anything
  else is done.
\<close>

definition process_request :: "driver \<Rightarrow> request \<Rightarrow> state \<Rightarrow> state" where
  "process_request drv req s =
     (if \<not> initialize drv then s
      else if \<not> login drv (req_login req) (req_password req) (req_server req) then s
      else
        let uid = req_user_id req;
            current_positions = snapshot_positions (now s) (positions_get drv) [];
            current_tickets = set (map fst current_positions);
            previous_snapshots = (case position_snapshots s uid of None \<Rightarrow> [] | Some m \<Rightarrow> m);
            closed_tickets = filter (\<lambda>(ticket, snap). ticket \<notin> current_tickets) previous_snapshots;
            s1 = handle_closed_positions drv uid (req_account_id req) (req_on_trade_closed req)
                   closed_tickets s;
            s2 = s1\<lparr> position_snapshots := (position_snapshots s1)(uid \<mapsto> current_positions) \<rparr>;
            formatted_positions = map (\<lambda>(ticket, snap). format_position snap) current_positions;
            s3 = s2\<lparr> cache := (cache s2)(uid \<mapsto>
                      \<lparr> positions = formatted_positions, timestamp = now s2 \<rparr>) \<rparr>
        in s3\<lparr> events := events s3 @ [Shutdown] \<rparr>)"

section \<open>The read-through cache\<close>

definition cache_duration :: int where
  "cache_duration = 2000"

definition queue_maxsize :: nat where
  "queue_maxsize = 100"

text \<open>The positions of a user's cache entry when it is there and younger than the TTL.\<close>

definition cached_fresh ::
  "(string \<rightharpoonup> cache_entry) \<Rightarrow> string \<Rightarrow> instant \<Rightarrow> formatted_position list option" where
  "cached_fresh c uid at_now =
     (case c uid of
        None \<Rightarrow> None
      | Some cached \<Rightarrow>
          if at_now - timestamp cached < cache_duration then Some (positions cached) else None)"

text \<open>
  The accumulator \<^verbatim>\<open>waited\<close> of the wait loop is a Python float that starts at \<^verbatim>\<open>0.0\<close> and
  grows by \<^verbatim>\<open>0.1\<close> until it reaches \<^verbatim>\<open>10.0\<close>.  The loop condition depends on the exact
  value, so this one float is modelled as the binary64 number it is.  Every binary64 value
  in the range from \<open>2\<^sup>-\<^sup>4\<close> to \<open>16\<close> is a multiple of \<open>2\<^sup>-\<^sup>5\<^sup>6\<close>; the model keeps the number
  of such units.  A sum is rounded to 53 significant bits, to the nearest, ties to even.
  \<^verbatim>\<open>0.1\<close> is the binary64 number \<open>7205759403792794 \<cdot> 2\<^sup>-\<^sup>5\<^sup>6\<close>, and \<^verbatim>\<open>10.0\<close> is \<open>10 \<cdot> 2\<^sup>5\<^sup>6\<close> units.
\<close>

fun bitlen :: "nat \<Rightarrow> nat" where
  "bitlen n = (if n = 0 then 0 else Suc (bitlen (n div 2)))"

declare bitlen.simps [simp del]

definition round53 :: "nat \<Rightarrow> nat" where
  "round53 n =
     (if bitlen n \<le> 53 then n
      else
        let ulp = 2 ^ (bitlen n - 53);
            q = n div ulp;
            r = n mod ulp
        in if 2 * r < ulp then q * ulp
           else if ulp < 2 * r then (q + 1) * ulp
           else if even q then q * ulp else (q + 1) * ulp)"

definition float_add :: "nat \<Rightarrow> nat \<Rightarrow> nat" where
  "float_add x y = round53 (x + y)"

definition wait_interval :: nat where
  "wait_interval = 7205759403792794"

definition max_wait :: nat where
  "max_wait = 720575940379279360"

text \<open>
  The wait loop of \<^verbatim>\<open>get_positions\<close>.  The worker writes the cache while the caller
  sleeps, so what the caller finds when it wakes is given from outside: \<open>seen k\<close> is the
  cache and the clock at its \<open>k\<close>-th wake-up.  \<open>k\<close> counts the wake-ups so far.  \<open>None\<close> is
  a loop that does not end.
\<close>

partial_function (option) wait_for_cache ::
  "(nat \<Rightarrow> (string \<rightharpoonup> cache_entry) \<times> instant) \<Rightarrow> string \<Rightarrow> nat \<Rightarrow> nat
     \<Rightarrow> formatted_position list option" where
  "wait_for_cache seen uid waited k =
     (if waited < max_wait then
        (case cached_fresh (fst (seen (Suc k))) uid (snd (seen (Suc k))) of
           Some cached_positions \<Rightarrow> Some cached_positions
         | None \<Rightarrow> wait_for_cache seen uid (float_add waited wait_interval) (Suc k))
      else Some [])"

text \<open>
  \<^verbatim>\<open>await self.request_queue.put(request)\<close>.  While the queue is full the caller is
  suspended in \<^verbatim>\<open>put\<close>; each time it is resumed it looks at the queue again, and it puts
  the request once it finds room.  The worker takes requests from the queue while the
  caller is suspended, so what the caller finds is given from outside: \<open>queue_at j\<close> is the
  queue at its \<open>j\<close>-th resumption.  The result is the queue the request is appended to;
  \<open>None\<close> is a caller that is never resumed with room in the queue.
\<close>

partial_function (option) put_wait ::
  "(nat \<Rightarrow> request list) \<Rightarrow> nat \<Rightarrow> request list \<Rightarrow> request list option" where
  "put_wait queue_at j q =
     (if queue_maxsize \<le> length q then put_wait queue_at (Suc j) (queue_at (Suc j))
      else Some q)"

text \<open>
  \<^verbatim>\<open>get_positions\<close>.  A call that returns gives a positions list, and the state is the one
  of the call with the caller's own change, the request appended to the queue it was put
  in; what the worker does meanwhile is seen through \<open>seen\<close> and \<open>queue_at\<close>.  \<open>None\<close> is a call
  that does not return.
\<close>

datatype outcome = Returned "formatted_position list" state

definition get_positions ::
  "(nat \<Rightarrow> (string \<rightharpoonup> cache_entry) \<times> instant) \<Rightarrow> (nat \<Rightarrow> request list) \<Rightarrow> request
     \<Rightarrow> state \<Rightarrow> outcome option" where
  "get_positions seen queue_at req s =
     (case cached_fresh (cache s) (req_user_id req) (now s) of
        Some cached_positions \<Rightarrow> Some (Returned cached_positions s)
      | None \<Rightarrow>
          (case put_wait queue_at 0 (request_queue s) of
             None \<Rightarrow> None
           | Some q \<Rightarrow>
               map_option (\<lambda>result. Returned result (s\<lparr> request_queue := q @ [req] \<rparr>))
                 (wait_for_cache seen (req_user_id req) 0 0)))"

section \<open>Notions used in the properties\<close>

text \<open>The closed tickets of a request, each with its previous snapshot.\<close>

definition closed_of :: "driver \<Rightarrow> request \<Rightarrow> state \<Rightarrow> (int \<times> snapshot) list" where
  "closed_of drv req s =
     filter (\<lambda>(ticket, snap). ticket \<notin> set (map fst (snapshot_positions (now s) (positions_get drv) [])))
       (case position_snapshots s (req_user_id req) of None \<Rightarrow> [] | Some m \<Rightarrow> m)"



section \<open>Concrete inputs\<close>

text \<open>
  A driver that accepts every login, has no open position and no history; a driver whose
  terminal does not initialise; one that refuses the login.
\<close>

definition quiet_driver :: driver where
  "quiet_driver =
     \<lparr> initialize = True,
       login = (\<lambda>account password server. True),
       positions_get = [],
       history_deals_get = (\<lambda>k from_date to_date. []),
       history_orders_get = (\<lambda>k from_date to_date. []),
       latency = (\<lambda>k. 0) \<rparr>"

definition down_driver :: driver where
  "down_driver = quiet_driver\<lparr> initialize := False \<rparr>"

definition refusing_driver :: driver where
  "refusing_driver = quiet_driver\<lparr> login := (\<lambda>account password server. False) \<rparr>"

text \<open>A long EURUSD position with ticket 1, its snapshot, and a request of user \<open>u1\<close>.\<close>

definition eurusd_position :: position where
  "eurusd_position =
     \<lparr> pos_ticket = 1,
       pos_symbol = ''EURUSD'',
       pos_type = POSITION_TYPE_BUY,
       pos_volume = 0.1,
       pos_price_open = 1.1,
       pos_price_current = 1.101,
       pos_sl = 1.098,
       pos_tp = 1.105,
       pos_profit = 10,
       pos_swap = 0,
       pos_time = 1700000000 \<rparr>"

definition eurusd_snapshot :: snapshot where
  "eurusd_snapshot = PositionSnapshot 0 eurusd_position"

definition request_u1 :: request where
  "request_u1 =
     \<lparr> req_user_id = ''u1'',
       req_login = 1001,
       req_password = ''secret'',
       req_server = ''Demo'',
       req_account_id = None,
       req_on_trade_closed = Some ''journal'' \<rparr>"

text \<open>The state of a fresh manager, and the state after user \<open>u1\<close> was seen with ticket 1 open.\<close>

definition fresh_state :: state where
  "fresh_state =
     \<lparr> request_queue = [],
       cache = Map.empty,
       position_snapshots = Map.empty,
       last_warmup = None,
       worker_running = True,
       now = 0,
       calls = 0,
       events = [],
       delivered = [] \<rparr>"

definition state_open_1 :: state where
  "state_open_1 =
     fresh_state\<lparr> position_snapshots := [''u1'' \<mapsto> [(1, eurusd_snapshot)]],
                  cache := [''u1'' \<mapsto> \<lparr> positions = [format_position eurusd_snapshot],
                                          timestamp = 0 \<rparr>],
                  now := 5000 \<rparr>"


text \<open>The exit deals and the entry deals of a ticket among the deals of a query, in order.\<close>

definition exit_deals :: "int \<Rightarrow> deal list \<Rightarrow> deal list" where
  "exit_deals ticket deals =
     filter (\<lambda>deal. deal_position_id deal = ticket \<and> deal_entry deal = DEAL_ENTRY_OUT) deals"

definition entry_deals :: "int \<Rightarrow> deal list \<Rightarrow> deal list" where
  "entry_deals ticket deals =
     filter (\<lambda>deal. deal_position_id deal = ticket \<and> deal_entry deal = DEAL_ENTRY_IN) deals"

text \<open>
  History for ticket 1: bought at time 5000 s, sold at time 9990 s; the order that closed
  it carries a stop-loss and no take-profit.  A driver with history answers a query with
  what falls into the window asked for.
\<close>

definition entry_deal_1 :: deal where
  "entry_deal_1 =
     \<lparr> deal_position_id = 1, deal_entry = DEAL_ENTRY_IN, deal_type = DEAL_TYPE_BUY,
       deal_symbol = ''EURUSD'', deal_volume = 0.1, deal_price = 1.1, deal_time = 5000,
       deal_profit = 0, deal_commission = - 0.5, deal_swap = 0 \<rparr>"

definition exit_deal_1 :: deal where
  "exit_deal_1 =
     \<lparr> deal_position_id = 1, deal_entry = DEAL_ENTRY_OUT, deal_type = DEAL_TYPE_SELL,
       deal_symbol = ''EURUSD'', deal_volume = 0.1, deal_price = 1.102, deal_time = 9990,
       deal_profit = 20, deal_commission = - 0.5, deal_swap = - 0.1 \<rparr>"

definition order_1 :: order where
  "order_1 =
     \<lparr> order_position_id = 1, order_sl = 1.098, order_tp = 0, order_price_current = 1.102,
       order_time_done = 9990 \<rparr>"

definition deals_between :: "deal list \<Rightarrow> instant \<Rightarrow> instant \<Rightarrow> deal list" where
  "deals_between ds from_date to_date =
     filter (\<lambda>deal. from_date \<le> fromtimestamp (deal_time deal)
                  \<and> fromtimestamp (deal_time deal) \<le> to_date) ds"

definition orders_between :: "order list \<Rightarrow> instant \<Rightarrow> instant \<Rightarrow> order list" where
  "orders_between os from_date to_date =
     filter (\<lambda>order. from_date \<le> fromtimestamp (order_time_done order)
                  \<and> fromtimestamp (order_time_done order) \<le> to_date) os"

definition deals_driver :: driver where
  "deals_driver =
     quiet_driver\<lparr> history_deals_get := (\<lambda>k. deals_between [entry_deal_1, exit_deal_1]) \<rparr>"

definition history_driver :: driver where
  "history_driver =
     deals_driver\<lparr> history_orders_get := (\<lambda>k. orders_between [order_1]) \<rparr>"

definition state_at_10000 :: state where
  "state_at_10000 = fresh_state\<lparr> now := 10000000 \<rparr>"

text \<open>The pip value the risk calculator takes for a trade record.\<close>

definition pip_size :: "trade_record \<Rightarrow> real" where
  "pip_size t =
     (if str_contains ''JPY'' (case symbol t of None \<Rightarrow> [] | Some name \<Rightarrow> name)
      then 0.01 else 0.0001)"

text \<open>
  Trade records: a EURUSD trade with its stop two pips under the entry; the same with the
  stop moved to the entry price, with an entry price of zero, and without a stop; a USDJPY
  trade without take-profit.
\<close>

definition trade_eurusd :: trade_record where
  "trade_eurusd =
     \<lparr> user_id = ''u1'', account_id = None, external_trade_id = ''mt5_1'',
       symbol = Some ''EURUSD'', side = ''buy'', volume = Some 0.1,
       entry_price = Some 1.1, entry_time = 5000000, exit_price = 1.102, exit_time = 9990000,
       gross_pnl = Some 20, commission = - 1, swap = - 0.1, net_pnl = 18.9,
       stop_loss = Some 1.098, take_profit = Some 1.105,
       status = ''closed'', source = ''history_deals'', accuracy = ''100%'',
       risk_amount = None, r_multiple = None, risk_reward = None \<rparr>"

definition trade_stop_at_entry :: trade_record where
  "trade_stop_at_entry = trade_eurusd\<lparr> stop_loss := Some 1.1 \<rparr>"

definition trade_zero_entry :: trade_record where
  "trade_zero_entry = trade_eurusd\<lparr> entry_price := Some 0 \<rparr>"

definition trade_no_stop :: trade_record where
  "trade_no_stop = trade_eurusd\<lparr> stop_loss := None \<rparr>"

definition trade_usdjpy :: trade_record where
  "trade_usdjpy =
     trade_eurusd\<lparr> symbol := Some ''USDJPY'', entry_price := Some 110, stop_loss := Some 109.5,
                    volume := Some 1, gross_pnl := Some 50, take_profit := None \<rparr>"

text \<open>
  The wait loop entered with the accumulator at \<open>waited\<close> goes through its body exactly \<open>n\<close>
  times before the accumulator stops it; and the result of \<open>n\<close> polls after \<open>k\<close> wake-ups:
  the positions of the first poll that finds a fresh entry, the empty list when none does.
\<close>

fun loop_runs :: "nat \<Rightarrow> nat \<Rightarrow> bool" where
  "loop_runs n waited =
     (if n = 0 then \<not> waited < max_wait
      else waited < max_wait \<and> loop_runs (n - 1) (float_add waited wait_interval))"

declare loop_runs.simps [simp del]

primrec first_fresh ::
  "(nat \<Rightarrow> (string \<rightharpoonup> cache_entry) \<times> instant) \<Rightarrow> string \<Rightarrow> nat \<Rightarrow> nat
     \<Rightarrow> formatted_position list" where
  "first_fresh seen uid 0 k = []"
| "first_fresh seen uid (Suc n) k =
     (case cached_fresh (fst (seen (Suc k))) uid (snd (seen (Suc k))) of
        Some cached_positions \<Rightarrow> cached_positions
      | None \<Rightarrow> first_fresh seen uid n (Suc k))"

text \<open>
  What a waiting caller may find: a cache that never gets an entry; a cache whose entry
  for \<open>u1\<close> is written just before the caller's 101st wake-up; a cache with a fresh entry
  for \<open>u2\<close> at every wake-up.  A second user, and a state whose queue holds 100 requests.
\<close>

definition never_seen :: "nat \<Rightarrow> (string \<rightharpoonup> cache_entry) \<times> instant" where
  "never_seen k = (Map.empty, int k * 100)"

definition late_seen :: "nat \<Rightarrow> (string \<rightharpoonup> cache_entry) \<times> instant" where
  "late_seen k =
     (if k < 101 then (Map.empty, int k * 100)
      else ([''u1'' \<mapsto> \<lparr> positions = [format_position eurusd_snapshot], timestamp = 10000 \<rparr>],
            int k * 100))"

definition prompt_seen :: "nat \<Rightarrow> (string \<rightharpoonup> cache_entry) \<times> instant" where
  "prompt_seen k =
     ([''u2'' \<mapsto> \<lparr> positions = [format_position eurusd_snapshot], timestamp = int k * 100 \<rparr>],
      int k * 100)"

definition request_u2 :: request where
  "request_u2 = request_u1\<lparr> req_user_id := ''u2'' \<rparr>"

definition full_state :: state where
  "full_state = fresh_state\<lparr> request_queue := replicate 100 request_u1 \<rparr>"

text \<open>
  What a caller suspended in \<^verbatim>\<open>put\<close> may find: a queue that never has room, a queue with
  room at the first resumption, one with room at the second; and a queue nobody waits for.
\<close>

definition never_freed :: "nat \<Rightarrow> request list" where
  "never_freed j = replicate 100 request_u1"

definition freed_at_1 :: "nat \<Rightarrow> request list" where
  "freed_at_1 j = replicate 99 request_u1"

definition freed_at_2 :: "nat \<Rightarrow> request list" where
  "freed_at_2 j = (if j < 2 then replicate 100 request_u1 else replicate 99 request_u1)"

definition idle_queue :: "nat \<Rightarrow> request list" where
  "idle_queue j = []"

text \<open>
  The events that log an attempt of the fetcher, and its back-off sleeps: every sleep other
  than the 0.3 s that follow a cache warm-up.  A list of events is plain when it has
  neither.
\<close>

fun is_attempt :: "event \<Rightarrow> bool" where
  "is_attempt (Attempt ticket attempt max_retries) = True"
| "is_attempt e = False"

fun is_backoff :: "event \<Rightarrow> bool" where
  "is_backoff (Sleep ms) = (ms \<noteq> 300)"
| "is_backoff e = False"

definition plain :: "event list \<Rightarrow> bool" where
  "plain es = (filter is_attempt es = [] \<and> filter is_backoff es = [])"





section \<open>What the fetcher leaves alone\<close>

lemma sleep_frame:
  "cache (sleep ms s) = cache s" "position_snapshots (sleep ms s) = position_snapshots s"
  "delivered (sleep ms s) = delivered s" "request_queue (sleep ms s) = request_queue s"
  "worker_running (sleep ms s) = worker_running s" "last_warmup (sleep ms s) = last_warmup s"
  by (simp_all add: sleep_def)

lemma history_deals_call_frame:
  "cache (snd (history_deals_call drv a b s)) = cache s"
  "position_snapshots (snd (history_deals_call drv a b s)) = position_snapshots s"
  "delivered (snd (history_deals_call drv a b s)) = delivered s"
  "request_queue (snd (history_deals_call drv a b s)) = request_queue s"
  "worker_running (snd (history_deals_call drv a b s)) = worker_running s"
  by (simp_all add: history_deals_call_def)

lemma history_orders_call_frame:
  "cache (snd (history_orders_call drv a b s)) = cache s"
  "position_snapshots (snd (history_orders_call drv a b s)) = position_snapshots s"
  "delivered (snd (history_orders_call drv a b s)) = delivered s"
  "request_queue (snd (history_orders_call drv a b s)) = request_queue s"
  "worker_running (snd (history_orders_call drv a b s)) = worker_running s"
  by (simp_all add: history_orders_call_def)

lemma warm_history_cache_frame:
  "cache (warm_history_cache drv s) = cache s"
  "position_snapshots (warm_history_cache drv s) = position_snapshots s"
  "delivered (warm_history_cache drv s) = delivered s"
  "request_queue (warm_history_cache drv s) = request_queue s"
  "worker_running (warm_history_cache drv s) = worker_running s"
  by (simp_all add: warm_history_cache_def Let_def sleep_def history_deals_call_def split: option.splits)

lemma get_sl_tp_from_orders_frame:
  "cache (snd (get_sl_tp_from_orders drv ticket s)) = cache s"
  "position_snapshots (snd (get_sl_tp_from_orders drv ticket s)) = position_snapshots s"
  "delivered (snd (get_sl_tp_from_orders drv ticket s)) = delivered s"
  "request_queue (snd (get_sl_tp_from_orders drv ticket s)) = request_queue s"
  "worker_running (snd (get_sl_tp_from_orders drv ticket s)) = worker_running s"
  by (simp_all add: get_sl_tp_from_orders_def Let_def history_orders_call_def split: option.splits)

lemma fetch_from_deals_frame:
  "cache (snd (fetch_from_deals drv ticket s)) = cache s"
  "position_snapshots (snd (fetch_from_deals drv ticket s)) = position_snapshots s"
  "delivered (snd (fetch_from_deals drv ticket s)) = delivered s"
  "request_queue (snd (fetch_from_deals drv ticket s)) = request_queue s"
  "worker_running (snd (fetch_from_deals drv ticket s)) = worker_running s"
  by (simp_all add: fetch_from_deals_def Let_def get_sl_tp_from_orders_def history_orders_call_def
        history_deals_call_def split: option.splits prod.splits)

lemma fetch_from_orders_frame:
  "cache (snd (fetch_from_orders drv ticket s)) = cache s"
  "position_snapshots (snd (fetch_from_orders drv ticket s)) = position_snapshots s"
  "delivered (snd (fetch_from_orders drv ticket s)) = delivered s"
  "request_queue (snd (fetch_from_orders drv ticket s)) = request_queue s"
  "worker_running (snd (fetch_from_orders drv ticket s)) = worker_running s"
  by (simp_all add: fetch_from_orders_def Let_def history_orders_call_def
        history_deals_call_def split: option.splits prod.splits)


lemma attempts_from_frame:
  "cache (snd (attempts_from drv ticket m n s)) = cache s \<and>
   position_snapshots (snd (attempts_from drv ticket m n s)) = position_snapshots s \<and>
   delivered (snd (attempts_from drv ticket m n s)) = delivered s \<and>
   request_queue (snd (attempts_from drv ticket m n s)) = request_queue s \<and>
   worker_running (snd (attempts_from drv ticket m n s)) = worker_running s"
proof (induction drv ticket m n s rule: attempts_from.induct)
  case (1 drv ticket m n s)
  show ?case
  proof (cases "n < m + 1")
    case False
    then show ?thesis by (simp add: attempts_from.simps)
  next
    case True
    define s0 where "s0 = s\<lparr> events := events s @ [Attempt ticket n m] \<rparr>"
    define s1 where "s1 = warm_history_cache drv s0"
    obtain found s2 where fd: "fetch_from_deals drv ticket s1 = (found, s2)"
      by (cases "fetch_from_deals drv ticket s1")
    obtain found' s3 where fo: "fetch_from_orders drv ticket s2 = (found', s3)"
      by (cases "fetch_from_orders drv ticket s2")
    have f0: "cache s0 = cache s" "position_snapshots s0 = position_snapshots s"
      "delivered s0 = delivered s" "request_queue s0 = request_queue s"
      "worker_running s0 = worker_running s"
      by (simp_all add: s0_def)
    have f1: "cache s1 = cache s" "position_snapshots s1 = position_snapshots s"
      "delivered s1 = delivered s" "request_queue s1 = request_queue s"
      "worker_running s1 = worker_running s"
      by (simp_all add: s1_def warm_history_cache_frame f0)
    have f2: "cache s2 = cache s" "position_snapshots s2 = position_snapshots s"
      "delivered s2 = delivered s" "request_queue s2 = request_queue s"
      "worker_running s2 = worker_running s"
      using fetch_from_deals_frame [of drv ticket s1] by (simp_all add: fd f1)
    have f3: "cache s3 = cache s" "position_snapshots s3 = position_snapshots s"
      "delivered s3 = delivered s" "request_queue s3 = request_queue s"
      "worker_running s3 = worker_running s"
      using fetch_from_orders_frame [of drv ticket s2] by (simp_all add: fo f2)
    show ?thesis
    proof (cases found)
      case (Some dat)
      then show ?thesis
        using True fd by (simp add: attempts_from.simps [of drv ticket m n s] Let_def
            s0_def [symmetric] s1_def [symmetric] f2)
    next
      case None
      note fnone = this
      show ?thesis
      proof (cases found')
        case (Some dat)
        then show ?thesis
          using True fd fo fnone by (simp add: attempts_from.simps [of drv ticket m n s] Let_def
              s0_def [symmetric] s1_def [symmetric] f3)
      next
        case None
        have ih: "cache (snd (attempts_from drv ticket m (n + 1)
                    (if n < m then sleep (nat (3 * n * 1000)) s3 else s3))) =
                  cache (if n < m then sleep (nat (3 * n * 1000)) s3 else s3) \<and>
              position_snapshots (snd (attempts_from drv ticket m (n + 1)
                    (if n < m then sleep (nat (3 * n * 1000)) s3 else s3))) =
                  position_snapshots (if n < m then sleep (nat (3 * n * 1000)) s3 else s3) \<and>
              delivered (snd (attempts_from drv ticket m (n + 1)
                    (if n < m then sleep (nat (3 * n * 1000)) s3 else s3))) =
                  delivered (if n < m then sleep (nat (3 * n * 1000)) s3 else s3) \<and>
              request_queue (snd (attempts_from drv ticket m (n + 1)
                    (if n < m then sleep (nat (3 * n * 1000)) s3 else s3))) =
                  request_queue (if n < m then sleep (nat (3 * n * 1000)) s3 else s3) \<and>
              worker_running (snd (attempts_from drv ticket m (n + 1)
                    (if n < m then sleep (nat (3 * n * 1000)) s3 else s3))) =
                  worker_running (if n < m then sleep (nat (3 * n * 1000)) s3 else s3)"
          using "1.IH" [OF True s0_def s1_def refl fd [symmetric] fnone refl fo [symmetric] None] .
        show ?thesis
          using True fd fo fnone None ih
          by (simp add: attempts_from.simps [of drv ticket m n s] Let_def
              s0_def [symmetric] s1_def [symmetric] f3 sleep_frame split: if_splits)
      qed
    qed
  qed
qed

lemma calculate_risk_metrics_fields:
  "gross_pnl (calculate_risk_metrics t) = gross_pnl t"
  "commission (calculate_risk_metrics t) = commission t"
  "swap (calculate_risk_metrics t) = swap t"
  "net_pnl (calculate_risk_metrics t) = net_pnl t"
  "stop_loss (calculate_risk_metrics t) = stop_loss t"
  "take_profit (calculate_risk_metrics t) = take_profit t"
  by (simp_all add: calculate_risk_metrics_def Let_def truediv_def split: option.splits)

lemma get_closed_position_data_frame:
  "cache (snd (get_closed_position_data drv ticket m s)) = cache s"
  "position_snapshots (snd (get_closed_position_data drv ticket m s)) = position_snapshots s"
  "delivered (snd (get_closed_position_data drv ticket m s)) = delivered s"
  "request_queue (snd (get_closed_position_data drv ticket m s)) = request_queue s"
  "worker_running (snd (get_closed_position_data drv ticket m s)) = worker_running s"
  by (simp_all add: get_closed_position_data_def attempts_from_frame)

lemma handle_closed_position_frame:
  "cache (handle_closed_position drv uid acct ticket snap cb s) = cache s"
  "position_snapshots (handle_closed_position drv uid acct ticket snap cb s) = position_snapshots s"
  "request_queue (handle_closed_position drv uid acct ticket snap cb s) = request_queue s"
  "worker_running (handle_closed_position drv uid acct ticket snap cb s) = worker_running s"
proof -
  obtain found s1 where g: "get_closed_position_data drv ticket 3 s = (found, s1)"
    by (cases "get_closed_position_data drv ticket 3 s")
  have f: "cache s1 = cache s" "position_snapshots s1 = position_snapshots s"
    "request_queue s1 = request_queue s" "worker_running s1 = worker_running s"
    using get_closed_position_data_frame [of drv ticket 3 s] by (simp_all add: g)
  show "cache (handle_closed_position drv uid acct ticket snap cb s) = cache s"
    "position_snapshots (handle_closed_position drv uid acct ticket snap cb s) = position_snapshots s"
    "request_queue (handle_closed_position drv uid acct ticket snap cb s) = request_queue s"
    "worker_running (handle_closed_position drv uid acct ticket snap cb s) = worker_running s"
    by (simp_all add: handle_closed_position_def g f split: option.splits)
qed

lemma handle_closed_position_delivered:
  "delivered (handle_closed_position drv uid acct ticket snap cb s) =
     delivered s @
       (case fst (get_closed_position_data drv ticket 3 s) of
          None \<Rightarrow> []
        | Some dat \<Rightarrow>
            (case cb of
               None \<Rightarrow> []
             | Some callback \<Rightarrow>
                 [(callback, calculate_risk_metrics (build_trade_data uid acct ticket snap dat))]))"
proof -
  obtain found s1 where g: "get_closed_position_data drv ticket 3 s = (found, s1)"
    by (cases "get_closed_position_data drv ticket 3 s")
  have f: "delivered s1 = delivered s"
    using get_closed_position_data_frame(3) [of drv ticket 3 s] by (simp add: g)
  show ?thesis
    by (simp add: handle_closed_position_def g f split: option.splits)
qed

lemma handle_closed_positions_frame:
  "cache (handle_closed_positions drv uid acct cb pairs s) = cache s \<and>
   position_snapshots (handle_closed_positions drv uid acct cb pairs s) = position_snapshots s \<and>
   request_queue (handle_closed_positions drv uid acct cb pairs s) = request_queue s \<and>
   worker_running (handle_closed_positions drv uid acct cb pairs s) = worker_running s"
proof (induction pairs arbitrary: s)
  case Nil
  show ?case by simp
next
  case (Cons p pairs)
  obtain ticket snap where p: "p = (ticket, snap)" by (cases p)
  show ?case
    using Cons.IH [of "handle_closed_position drv uid acct ticket snap cb s"]
    by (simp add: p handle_closed_position_frame)
qed


lemma process_request_ok:
  assumes "initialize drv" "login drv (req_login req) (req_password req) (req_server req)"
  shows "delivered (process_request drv req s) =
           delivered (handle_closed_positions drv (req_user_id req) (req_account_id req)
              (req_on_trade_closed req) (closed_of drv req s) s)"
    and "position_snapshots (process_request drv req s) =
           (position_snapshots s)(req_user_id req \<mapsto> snapshot_positions (now s) (positions_get drv) [])"
    and "request_queue (process_request drv req s) = request_queue s"
  using assms handle_closed_positions_frame [of drv "req_user_id req" "req_account_id req"
      "req_on_trade_closed req" "closed_of drv req s" s]
  by (simp_all add: process_request_def closed_of_def Let_def)



lemma attempts_from_step:
  "attempts_from drv ticket m n s =
     (if n \<le> m then
        (case fetch_from_deals drv ticket
                (warm_history_cache drv (s\<lparr> events := events s @ [Attempt ticket n m] \<rparr>)) of
           (Some dat, s2) \<Rightarrow> (Some dat, s2)
         | (None, s2) \<Rightarrow>
             (case fetch_from_orders drv ticket s2 of
                (Some dat, s3) \<Rightarrow> (Some dat, s3)
              | (None, s3) \<Rightarrow>
                  if n < m then attempts_from drv ticket m (n + 1) (sleep (nat (3 * n * 1000)) s3)
                  else (None, s3)))
      else (None, s))"
proof -
  have unfold: "attempts_from drv ticket m n s =
     (if n < m + 1 then
        (case fetch_from_deals drv ticket
                (warm_history_cache drv (s\<lparr> events := events s @ [Attempt ticket n m] \<rparr>)) of
           (Some dat, s2) \<Rightarrow> (Some dat, s2)
         | (None, s2) \<Rightarrow>
             (case fetch_from_orders drv ticket s2 of
                (Some dat, s3) \<Rightarrow> (Some dat, s3)
              | (None, s3) \<Rightarrow>
                  attempts_from drv ticket m (n + 1)
                    (if n < m then sleep (nat (3 * n * 1000)) s3 else s3)))
      else (None, s))"
    by (subst attempts_from.simps) (simp add: Let_def split: prod.splits option.splits)
  have last: "attempts_from drv ticket m (m + 1) s' = (None, s')" for s'
    by (subst attempts_from.simps) simp
  show ?thesis
    by (subst unfold) (auto simp: last split: prod.splits option.splits)
qed

lemma attempts_induct:
  assumes "\<And>n s. (\<And>s'. n < m \<Longrightarrow> P (n + 1) s') \<Longrightarrow> P n s"
  shows "P (n::int) (s::state)"
proof (induction "nat (m - n)" arbitrary: n s)
  case 0
  then have "\<not> n < m" by simp
  then show ?case by (rule_tac assms) simp
next
  case (Suc k)
  show ?case
  proof (rule assms)
    fix s'
    assume "n < m"
    then have "k = nat (m - (n + 1))" using Suc.hyps(2) by simp
    then show "P (n + 1) s'" by (rule Suc.hyps(1))
  qed
qed

section \<open>Aborted requests\<close>

text \<open>
  C9.  When the terminal does not initialise, or the login fails, processing the request
  leaves the whole state as it was: the cache, every snapshot map, the queue, the fetcher's
  warm-up instant, and the list of delivered trade records (no callback is invoked).
\<close>

theorem process_request_aborts:
  assumes "\<not> initialize drv \<or> \<not> login drv (req_login req) (req_password req) (req_server req)"
  shows "process_request drv req s = s"
  using assms by (auto simp: process_request_def)

theorem process_request_aborts_witness:
  "\<not> initialize down_driver
   \<and> process_request down_driver request_u1 state_open_1 = state_open_1
   \<and> initialize refusing_driver
   \<and> \<not> login refusing_driver (req_login request_u1) (req_password request_u1) (req_server request_u1)
   \<and> process_request refusing_driver request_u1 state_open_1 = state_open_1"
  using process_request_aborts [of down_driver request_u1 state_open_1]
    process_request_aborts [of refusing_driver request_u1 state_open_1]
  by (simp add: down_driver_def refusing_driver_def quiet_driver_def)

section \<open>A closed ticket whose data cannot be fetched\<close>

lemma fetch_from_deals_empty:
  assumes "history_deals_get drv (calls s) (now s - minutes 30) (now s) = []"
  shows "fst (fetch_from_deals drv ticket s) = None"
  using assms by (simp add: fetch_from_deals_def history_deals_call_def)

lemma fetch_from_orders_empty:
  assumes "history_orders_get drv (calls s) (now s - minutes 30) (now s) = []"
  shows "fst (fetch_from_orders drv ticket s) = None"
  using assms by (simp add: fetch_from_orders_def history_orders_call_def)

lemma attempts_from_no_history:
  assumes d: "\<And>k a b. history_deals_get drv k a b = []"
    and o: "\<And>k a b. history_orders_get drv k a b = []"
  shows "fst (attempts_from drv ticket m n s) = None"
proof (induction n s rule: attempts_induct [where m = m])
  case (1 n s)
  define s1 where "s1 = warm_history_cache drv (s\<lparr> events := events s @ [Attempt ticket n m] \<rparr>)"
  obtain s2 where fd: "fetch_from_deals drv ticket s1 = (None, s2)"
    using fetch_from_deals_empty [of drv s1 ticket] d by (cases "fetch_from_deals drv ticket s1") simp
  obtain s3 where fo: "fetch_from_orders drv ticket s2 = (None, s3)"
    using fetch_from_orders_empty [of drv s2 ticket] o by (cases "fetch_from_orders drv ticket s2") simp
  show ?case
    using "1" [of "sleep (nat (3 * n * 1000)) s3"]
    by (subst attempts_from_step) (simp add: s1_def [symmetric] fd fo)
qed

lemma quiet_fetch: "fst (get_closed_position_data quiet_driver ticket m s) = None"
  unfolding get_closed_position_data_def
  by (rule attempts_from_no_history) (simp_all add: quiet_driver_def)

text \<open>
  C1.  User \<open>u1\<close> has ticket 1 in the snapshot map; the next poll finds no open position
  and the history has nothing on the ticket, so the fetcher returns \<open>None\<close>.  After the
  cycle the user's snapshot map is empty and no trade record was delivered: the ticket is
  neither reported nor kept for a retry.
\<close>

theorem closed_ticket_dropped_without_callback:
  "position_snapshots state_open_1 ''u1'' = Some [(1, eurusd_snapshot)]
   \<and> positions_get quiet_driver = []
   \<and> fst (get_closed_position_data quiet_driver 1 3 state_open_1) = None
   \<and> position_snapshots (process_request quiet_driver request_u1 state_open_1) ''u1'' = Some []
   \<and> delivered (process_request quiet_driver request_u1 state_open_1) = []"
proof -
  have ok: "initialize quiet_driver"
    "login quiet_driver (req_login request_u1) (req_password request_u1) (req_server request_u1)"
    by (simp_all add: quiet_driver_def)
  have c: "closed_of quiet_driver request_u1 state_open_1 = [(1, eurusd_snapshot)]"
    by (simp add: closed_of_def quiet_driver_def request_u1_def state_open_1_def)
  have d: "delivered state_open_1 = []"
    by (simp add: state_open_1_def fresh_state_def)
  have "delivered (process_request quiet_driver request_u1 state_open_1) = []"
    by (simp add: process_request_ok(1) [OF ok] c handle_closed_position_delivered quiet_fetch d)
  moreover have "position_snapshots (process_request quiet_driver request_u1 state_open_1) ''u1'' = Some []"
    by (simp add: process_request_ok(2) [OF ok]) (simp add: request_u1_def quiet_driver_def)
  ultimately show ?thesis
    by (simp add: quiet_fetch) (simp add: state_open_1_def quiet_driver_def)
qed

section \<open>The deals source\<close>

lemma scan_deals_last:
  "scan_deals ticket deals (e0, x0) =
     (if entry_deals ticket deals = [] then e0 else Some (last (entry_deals ticket deals)),
      if exit_deals ticket deals = [] then x0 else Some (last (exit_deals ticket deals)))"
  by (induction deals arbitrary: e0 x0) (auto simp: entry_deals_def exit_deals_def)

lemma exit_deals_Nil [simp]: "exit_deals ticket [] = []"
  by (simp add: exit_deals_def)

lemma fetch_from_deals_built:
  fixes drv :: driver and ticket :: int and s :: state
  defines "recent \<equiv> history_deals_get drv (calls s) (now s - minutes 30) (now s)"
  defines "older \<equiv> history_deals_get drv (Suc (calls s))
                      (now s + int (latency drv (calls s)) - days 7) (now s - minutes 30)"
  defines "exits \<equiv> exit_deals ticket recent"
  defines "entries \<equiv> entry_deals ticket recent"
  defines "entry_deal \<equiv>
             (if entries \<noteq> [] then Some (last entries)
              else find (\<lambda>deal. deal_position_id deal = ticket \<and> deal_entry deal = DEAL_ENTRY_IN) older)"
  shows "(exits = [] \<longrightarrow> fst (fetch_from_deals drv ticket s) = None)
     \<and> (exits \<noteq> [] \<longrightarrow>
          (\<exists>dat. fst (fetch_from_deals drv ticket s) = Some dat
             \<and> d_source dat = ''history_deals'' \<and> d_accuracy dat = ''100%''
             \<and> d_ticket dat = ticket
             \<and> d_symbol dat = Some (deal_symbol (last exits))
             \<and> d_volume dat = Some (deal_volume (last exits))
             \<and> d_exit_price dat = deal_price (last exits)
             \<and> d_exit_time dat = fromtimestamp (deal_time (last exits))
             \<and> d_profit dat = deal_profit (last exits)
             \<and> d_swap dat = deal_swap (last exits)
             \<and> (case entry_deal of
                   None \<Rightarrow> d_commission dat = deal_commission (last exits)
                            \<and> d_entry_price dat = None \<and> d_entry_time dat = None
                            \<and> d_side dat = None
                 | Some e \<Rightarrow> d_commission dat = deal_commission (last exits) + deal_commission e
                            \<and> d_entry_price dat = Some (deal_price e)
                            \<and> d_entry_time dat = Some (fromtimestamp (deal_time e))
                            \<and> d_side dat = Some (if deal_type e = DEAL_TYPE_BUY then ''buy'' else ''sell''))))"
proof (intro conjI impI)
  assume "exits = []"
  then show "fst (fetch_from_deals drv ticket s) = None"
    by (simp add: fetch_from_deals_def history_deals_call_def scan_deals_last exits_def recent_def
        Let_def split: prod.splits)
next
  assume ex: "exits \<noteq> []"
  then have ne: "recent \<noteq> []" by (auto simp: exits_def)
  define s1 where "s1 = snd (history_deals_call drv (now s - minutes 30) (now s) s)"
  have s1: "history_deals_call drv (now s - minutes 30) (now s) s = (recent, s1)"
    by (simp add: s1_def history_deals_call_def recent_def)
  have s1': "now s1 = now s + int (latency drv (calls s))" "calls s1 = Suc (calls s)"
    by (simp_all add: s1_def history_deals_call_def)
  have sc: "scan_deals ticket recent (None, None) =
        (if entries = [] then None else Some (last entries), Some (last exits))"
    using ex by (simp add: scan_deals_last entries_def exits_def)
  show "\<exists>dat. fst (fetch_from_deals drv ticket s) = Some dat
             \<and> d_source dat = ''history_deals'' \<and> d_accuracy dat = ''100%''
             \<and> d_ticket dat = ticket
             \<and> d_symbol dat = Some (deal_symbol (last exits))
             \<and> d_volume dat = Some (deal_volume (last exits))
             \<and> d_exit_price dat = deal_price (last exits)
             \<and> d_exit_time dat = fromtimestamp (deal_time (last exits))
             \<and> d_profit dat = deal_profit (last exits)
             \<and> d_swap dat = deal_swap (last exits)
             \<and> (case entry_deal of
                   None \<Rightarrow> d_commission dat = deal_commission (last exits)
                            \<and> d_entry_price dat = None \<and> d_entry_time dat = None
                            \<and> d_side dat = None
                 | Some e \<Rightarrow> d_commission dat = deal_commission (last exits) + deal_commission e
                            \<and> d_entry_price dat = Some (deal_price e)
                            \<and> d_entry_time dat = Some (fromtimestamp (deal_time e))
                            \<and> d_side dat = Some (if deal_type e = DEAL_TYPE_BUY then ''buy'' else ''sell''))"
  proof (cases "entries = []")
    case False
    then have e: "entry_deal = Some (last entries)" by (simp add: entry_deal_def)
    show ?thesis
      using ne False
      by (simp add: fetch_from_deals_def s1 sc e deal_data_def add_entry_data_def Let_def
          split: prod.splits)
  next
    case True
    have e: "entry_deal = find (\<lambda>deal. deal_position_id deal = ticket \<and> deal_entry deal = DEAL_ENTRY_IN) older"
      using True by (simp add: entry_deal_def)
    define s2 where "s2 = snd (history_deals_call drv (now s1 - days 7) (now s - minutes 30) s1)"
    have o: "history_deals_call drv (now s1 - days 7) (now s - minutes 30) s1 = (older, s2)"
      by (simp add: s2_def history_deals_call_def older_def s1')
    show ?thesis
      using ne True
      by (cases entry_deal)
         (simp_all add: fetch_from_deals_def s1 sc e [symmetric] o deal_data_def add_entry_data_def
          Let_def split: prod.splits)
  qed
qed


text \<open>
  C5.  The deals source asks for the deals of the last 30 minutes.  It has nothing when no
  deal of that answer is an exit deal (\<open>entry = OUT\<close>) of the ticket.  Otherwise its result
  is built from the last such exit deal: symbol, volume, price, time, profit, swap and
  commission, tagged \<open>history_deals\<close> and \<open>100%\<close>.  The entry deal is the last entry deal
  (\<open>entry = IN\<close>) of the ticket in that answer or, when there is none, the first one in the
  answer to a second query from 7 days back up to 30 minutes back; when an entry deal is
  found it gives the entry price, the entry time and the side, and its commission is added
  to the exit deal's.
\<close>

theorem fetch_from_deals_result:
  fixes drv :: driver and ticket :: int and s :: state
  defines "recent \<equiv> history_deals_get drv (calls s) (now s - minutes 30) (now s)"
  defines "older \<equiv> history_deals_get drv (Suc (calls s))
                      (now s + int (latency drv (calls s)) - days 7) (now s - minutes 30)"
  defines "exits \<equiv> exit_deals ticket recent"
  defines "entries \<equiv> entry_deals ticket recent"
  defines "entry_deal \<equiv>
             (if entries \<noteq> [] then Some (last entries)
              else find (\<lambda>deal. deal_position_id deal = ticket \<and> deal_entry deal = DEAL_ENTRY_IN) older)"
  shows "(exits = [] \<longrightarrow> fst (fetch_from_deals drv ticket s) = None)
     \<and> (exits \<noteq> [] \<longrightarrow>
          (\<exists>dat. fst (fetch_from_deals drv ticket s) = Some dat
             \<and> d_source dat = ''history_deals'' \<and> d_accuracy dat = ''100%''
             \<and> d_ticket dat = ticket
             \<and> d_symbol dat = Some (deal_symbol (last exits))
             \<and> d_volume dat = Some (deal_volume (last exits))
             \<and> d_exit_price dat = deal_price (last exits)
             \<and> d_exit_time dat = fromtimestamp (deal_time (last exits))
             \<and> d_profit dat = deal_profit (last exits)
             \<and> d_swap dat = deal_swap (last exits)
             \<and> (case entry_deal of
                   None \<Rightarrow> d_commission dat = deal_commission (last exits)
                            \<and> d_entry_price dat = None \<and> d_entry_time dat = None
                            \<and> d_side dat = None
                 | Some e \<Rightarrow> d_commission dat = deal_commission (last exits) + deal_commission e
                            \<and> d_entry_price dat = Some (deal_price e)
                            \<and> d_entry_time dat = Some (fromtimestamp (deal_time e))
                            \<and> d_side dat = Some (if deal_type e = DEAL_TYPE_BUY then ''buy'' else ''sell''))))"
  unfolding recent_def older_def exits_def entries_def entry_deal_def
  by (rule fetch_from_deals_built)

lemma deals_driver_recent:
  "history_deals_get deals_driver (calls state_at_10000)
       (now state_at_10000 - minutes 30) (now state_at_10000) = [exit_deal_1]"
  by (simp add: deals_driver_def state_at_10000_def deals_between_def entry_deal_1_def
      exit_deal_1_def fromtimestamp_def minutes_def)

lemma deals_driver_older:
  "history_deals_get deals_driver (Suc (calls state_at_10000))
       (now state_at_10000 + int (latency deals_driver (calls state_at_10000)) - days 7)
       (now state_at_10000 - minutes 30) = [entry_deal_1]"
  by (simp add: deals_driver_def quiet_driver_def state_at_10000_def deals_between_def
      entry_deal_1_def exit_deal_1_def fromtimestamp_def minutes_def days_def)

lemma quiet_driver_recent:
  "history_deals_get quiet_driver k a b = []"
  by (simp add: quiet_driver_def)

theorem fetch_from_deals_result_witness:
  "exit_deals 1 (history_deals_get deals_driver (calls state_at_10000)
       (now state_at_10000 - minutes 30) (now state_at_10000)) = [exit_deal_1]
   \<and> entry_deals 1 (history_deals_get deals_driver (calls state_at_10000)
       (now state_at_10000 - minutes 30) (now state_at_10000)) = []
   \<and> (\<exists>dat. fst (fetch_from_deals deals_driver 1 state_at_10000) = Some dat
         \<and> d_source dat = ''history_deals'' \<and> d_accuracy dat = ''100%''
         \<and> d_symbol dat = Some ''EURUSD'' \<and> d_exit_price dat = 1.102
         \<and> d_profit dat = 20 \<and> d_commission dat = - 1
         \<and> d_entry_price dat = Some 1.1 \<and> d_side dat = Some ''buy'')
   \<and> exit_deals 1 (history_deals_get quiet_driver (calls state_at_10000)
       (now state_at_10000 - minutes 30) (now state_at_10000)) = []
   \<and> fst (fetch_from_deals quiet_driver 1 state_at_10000) = None"
proof -
  have x: "exit_deals 1 [exit_deal_1] = [exit_deal_1]" "entry_deals 1 [exit_deal_1] = []"
    by (simp_all add: exit_deals_def entry_deals_def exit_deal_1_def)
  have f: "find (\<lambda>deal. deal_position_id deal = 1 \<and> deal_entry deal = DEAL_ENTRY_IN) [entry_deal_1]
             = Some entry_deal_1"
    by (simp add: entry_deal_1_def)
  have "\<exists>dat. fst (fetch_from_deals deals_driver 1 state_at_10000) = Some dat
         \<and> d_source dat = ''history_deals'' \<and> d_accuracy dat = ''100%''
         \<and> d_symbol dat = Some ''EURUSD'' \<and> d_exit_price dat = 1.102
         \<and> d_profit dat = 20 \<and> d_commission dat = - 1
         \<and> d_entry_price dat = Some 1.1 \<and> d_side dat = Some ''buy''"
    using fetch_from_deals_result [of 1 deals_driver state_at_10000]
    unfolding deals_driver_recent deals_driver_older x f
    by (auto simp: exit_deal_1_def entry_deal_1_def)
  moreover have "fst (fetch_from_deals quiet_driver 1 state_at_10000) = None"
    using fetch_from_deals_result [of 1 quiet_driver state_at_10000]
    by (simp add: quiet_driver_recent)
  ultimately show ?thesis
    by (simp add: deals_driver_recent x quiet_driver_recent)
qed

section \<open>The orders source\<close>

lemma sum_deals_totals:
  "sum_deals ticket deals (p, c, w) =
     (p + sum_list (map deal_profit (filter (\<lambda>deal. deal_position_id deal = ticket) deals)),
      c + sum_list (map deal_commission (filter (\<lambda>deal. deal_position_id deal = ticket) deals)),
      w + sum_list (map deal_swap (filter (\<lambda>deal. deal_position_id deal = ticket) deals)))"
  by (induction deals arbitrary: p c w) simp_all

text \<open>
  C6.  The orders source asks for the orders of the last 30 minutes and has nothing when
  none of them belongs to the ticket.  Otherwise, with the first such order: the exit price
  is the order's \<open>price_current\<close>, the exit time its \<open>time_done\<close>, stop-loss and take-profit
  are the order's when positive and unset otherwise (so zero is unset); profit, commission
  and swap are the sums over the deals of the ticket in the answer to a deals query that
  starts at the same instant 30 minutes back, each sum being 0 when that answer is empty;
  the result is tagged \<open>history_orders\<close> and \<open>95-100%\<close>.
\<close>

theorem fetch_from_orders_result:
  fixes drv :: driver and ticket :: int and s :: state
  defines "orders \<equiv> history_orders_get drv (calls s) (now s - minutes 30) (now s)"
  defines "deals \<equiv> history_deals_get drv (Suc (calls s)) (now s - minutes 30)
                      (now s + int (latency drv (calls s)))"
  defines "mine \<equiv> filter (\<lambda>deal. deal_position_id deal = ticket) deals"
  shows "(find (\<lambda>order. order_position_id order = ticket) orders = None
            \<longrightarrow> fst (fetch_from_orders drv ticket s) = None)
     \<and> (\<forall>order. find (\<lambda>order. order_position_id order = ticket) orders = Some order \<longrightarrow>
          (\<exists>dat. fst (fetch_from_orders drv ticket s) = Some dat
             \<and> d_source dat = ''history_orders'' \<and> d_accuracy dat = ''95-100%''
             \<and> d_ticket dat = ticket
             \<and> d_exit_price dat = order_price_current order
             \<and> d_exit_time dat = fromtimestamp (order_time_done order)
             \<and> d_sl dat = Some (if order_sl order > 0 then Some (order_sl order) else None)
             \<and> d_tp dat = Some (if order_tp order > 0 then Some (order_tp order) else None)
             \<and> d_profit dat = sum_list (map deal_profit mine)
             \<and> d_commission dat = sum_list (map deal_commission mine)
             \<and> d_swap dat = sum_list (map deal_swap mine)
             \<and> (deals = [] \<longrightarrow> d_profit dat = 0 \<and> d_commission dat = 0 \<and> d_swap dat = 0)))"
proof -
  define s1 where "s1 = snd (history_orders_call drv (now s - minutes 30) (now s) s)"
  have c1: "history_orders_call drv (now s - minutes 30) (now s) s = (orders, s1)"
    by (simp add: s1_def history_orders_call_def orders_def)
  have s1': "now s1 = now s + int (latency drv (calls s))" "calls s1 = Suc (calls s)"
    by (simp_all add: s1_def history_orders_call_def)
  define s2 where "s2 = snd (history_deals_call drv (now s - minutes 30) (now s1) s1)"
  have c2: "history_deals_call drv (now s - minutes 30) (now s1) s1 = (deals, s2)"
    by (simp add: s2_def history_deals_call_def deals_def s1')
  have e: "deals = [] \<Longrightarrow> mine = []" by (simp add: mine_def)
  show ?thesis
    by (auto simp: fetch_from_orders_def c1 c2 sum_deals_totals mine_def positive_or_None_def
        Let_def)
qed

theorem fetch_from_orders_result_witness:
  "find (\<lambda>order. order_position_id order = 1)
      (history_orders_get history_driver (calls state_at_10000)
         (now state_at_10000 - minutes 30) (now state_at_10000)) = Some order_1
   \<and> order_sl order_1 = 1.098 \<and> order_tp order_1 = 0
   \<and> (\<exists>dat. fst (fetch_from_orders history_driver 1 state_at_10000) = Some dat
         \<and> d_source dat = ''history_orders'' \<and> d_accuracy dat = ''95-100%''
         \<and> d_exit_price dat = 1.102 \<and> d_exit_time dat = 9990000
         \<and> d_sl dat = Some (Some 1.098) \<and> d_tp dat = Some None
         \<and> d_profit dat = 20 \<and> d_commission dat = - 0.5 \<and> d_swap dat = - 0.1)
   \<and> find (\<lambda>order. order_position_id order = 1)
      (history_orders_get quiet_driver (calls state_at_10000)
         (now state_at_10000 - minutes 30) (now state_at_10000)) = None
   \<and> fst (fetch_from_orders quiet_driver 1 state_at_10000) = None"
proof -
  have o: "history_orders_get history_driver (calls state_at_10000)
         (now state_at_10000 - minutes 30) (now state_at_10000) = [order_1]"
    by (simp add: history_driver_def state_at_10000_def orders_between_def order_1_def
        fromtimestamp_def minutes_def)
  have d: "history_deals_get history_driver (Suc (calls state_at_10000))
         (now state_at_10000 - minutes 30)
         (now state_at_10000 + int (latency history_driver (calls state_at_10000))) = [exit_deal_1]"
    by (simp add: history_driver_def deals_driver_def quiet_driver_def state_at_10000_def
        deals_between_def entry_deal_1_def exit_deal_1_def fromtimestamp_def minutes_def)
  have f: "find (\<lambda>order. order_position_id order = 1) [order_1] = Some order_1"
    by (simp add: order_1_def)
  have m: "filter (\<lambda>deal. deal_position_id deal = 1) [exit_deal_1] = [exit_deal_1]"
    by (simp add: exit_deal_1_def)
  have q: "history_orders_get quiet_driver k a b = []" for k a b
    by (simp add: quiet_driver_def)
  have "\<exists>dat. fst (fetch_from_orders history_driver 1 state_at_10000) = Some dat
         \<and> d_source dat = ''history_orders'' \<and> d_accuracy dat = ''95-100%''
         \<and> d_exit_price dat = 1.102 \<and> d_exit_time dat = 9990000
         \<and> d_sl dat = Some (Some 1.098) \<and> d_tp dat = Some None
         \<and> d_profit dat = 20 \<and> d_commission dat = - 0.5 \<and> d_swap dat = - 0.1"
    using fetch_from_orders_result [of 1 history_driver state_at_10000]
    unfolding o d f m
    by (auto simp: order_1_def exit_deal_1_def fromtimestamp_def)
  moreover have "fst (fetch_from_orders quiet_driver 1 state_at_10000) = None"
    using fetch_from_orders_result [of 1 quiet_driver state_at_10000]
    by (simp add: q)
  ultimately show ?thesis
    by (simp add: o f q) (simp add: order_1_def)
qed

section \<open>Where stop-loss and take-profit come from\<close>

text \<open>
  C10.  A result of the deals source always has the keys \<open>sl\<close> and \<open>tp\<close>.  The stop-loss
  and take-profit of the trade record built from it are what the one-hour orders scan (the
  last query the source makes) gives: the first order of the ticket decides, a value that
  is not positive being unset, and both are unset when the scan finds no order of the
  ticket.  The snapshot does not occur in either value, whatever it recorded.
\<close>

theorem deals_source_sl_tp:
  fixes drv :: driver and ticket :: int and s s' :: state and dat :: data
    and uid :: string and acct :: "string option" and snap :: snapshot
  assumes "fetch_from_deals drv ticket s = (Some dat, s')"
  defines "k \<equiv> calls s' - 1"
  defines "at_scan \<equiv> now s' - int (latency drv k)"
  defines "scan \<equiv> find (\<lambda>order. order_position_id order = ticket)
                     (history_orders_get drv k (at_scan - hours 1) at_scan)"
  defines "t \<equiv> calculate_risk_metrics (build_trade_data uid acct ticket snap dat)"
  shows "d_sl dat \<noteq> None \<and> d_tp dat \<noteq> None
     \<and> stop_loss t = (case scan of None \<Rightarrow> None
                      | Some order \<Rightarrow> if order_sl order > 0 then Some (order_sl order) else None)
     \<and> take_profit t = (case scan of None \<Rightarrow> None
                      | Some order \<Rightarrow> if order_tp order > 0 then Some (order_tp order) else None)"
proof -
  have sl_tp: "fst (get_sl_tp_from_orders drv ticket s2) =
      (case find (\<lambda>order. order_position_id order = ticket)
              (history_orders_get drv (calls s2) (now s2 - hours 1) (now s2)) of
         None \<Rightarrow> (None, None)
       | Some order \<Rightarrow> (positive_or_None (order_sl order), positive_or_None (order_tp order)))"
      "calls (snd (get_sl_tp_from_orders drv ticket s2)) = Suc (calls s2)"
      "now (snd (get_sl_tp_from_orders drv ticket s2)) = now s2 + int (latency drv (calls s2))"
    for s2
    by (simp_all add: get_sl_tp_from_orders_def history_orders_call_def Let_def split: option.splits)
  have "\<exists>s2 sl tp. get_sl_tp_from_orders drv ticket s2 = ((sl, tp), s')
            \<and> d_sl dat = Some sl \<and> d_tp dat = Some tp"
    using assms(1)
    by (auto simp: fetch_from_deals_def Let_def split: prod.splits option.splits if_splits)
  then obtain s2 sl tp where g: "get_sl_tp_from_orders drv ticket s2 = ((sl, tp), s')"
      "d_sl dat = Some sl" "d_tp dat = Some tp"
    by blast
  have s2: "s' = snd (get_sl_tp_from_orders drv ticket s2)"
      "d_sl dat = Some (fst (fst (get_sl_tp_from_orders drv ticket s2)))"
      "d_tp dat = Some (snd (fst (get_sl_tp_from_orders drv ticket s2)))"
    by (simp_all add: g)
  have k: "k = calls s2" "at_scan = now s2"
    by (simp_all add: k_def at_scan_def s2(1) sl_tp)
  show ?thesis
    by (cases scan)
       (simp_all add: t_def calculate_risk_metrics_fields build_trade_data_def s2 sl_tp
        scan_def [symmetric, unfolded k] positive_or_None_def)
qed


theorem deals_source_sl_tp_witness:
  "snap_sl eurusd_snapshot = 1.098 \<and> snap_tp eurusd_snapshot = 1.105
   \<and> (\<exists>dat s'. fetch_from_deals deals_driver 1 state_at_10000 = (Some dat, s')
         \<and> d_sl dat = Some None \<and> d_tp dat = Some None
         \<and> stop_loss (calculate_risk_metrics
               (build_trade_data ''u1'' None 1 eurusd_snapshot dat)) = None
         \<and> take_profit (calculate_risk_metrics
               (build_trade_data ''u1'' None 1 eurusd_snapshot dat)) = None)"
proof -
  have x: "exit_deals 1 [exit_deal_1] \<noteq> []"
    by (simp add: exit_deals_def exit_deal_1_def)
  obtain dat where "fst (fetch_from_deals deals_driver 1 state_at_10000) = Some dat"
    using fetch_from_deals_built [of 1 deals_driver state_at_10000] x
    unfolding deals_driver_recent by blast
  then obtain s' where f: "fetch_from_deals deals_driver 1 state_at_10000 = (Some dat, s')"
    by (cases "fetch_from_deals deals_driver 1 state_at_10000") simp
  have q: "history_orders_get deals_driver k a b = []" for k a b
    by (simp add: deals_driver_def quiet_driver_def)
  have r: "stop_loss (calculate_risk_metrics
               (build_trade_data ''u1'' None 1 eurusd_snapshot dat)) = None
         \<and> take_profit (calculate_risk_metrics
               (build_trade_data ''u1'' None 1 eurusd_snapshot dat)) = None"
    using deals_source_sl_tp [OF f, of "''u1''" None eurusd_snapshot]
    by (simp add: q)
  then have "d_sl dat = Some None \<and> d_tp dat = Some None"
    using deals_source_sl_tp [OF f, of "''u1''" None eurusd_snapshot]
    by (auto simp: calculate_risk_metrics_fields build_trade_data_def)
  with r f show ?thesis
    by (auto simp: eurusd_snapshot_def PositionSnapshot_def eurusd_position_def)
qed

section \<open>The risk metrics\<close>

lemma pip_size_pos: "0 < pip_size t"
  by (simp add: pip_size_def)

lemma calc_guarded:
  assumes "entry_price t = Some entry" "stop_loss t = Some sl" "volume t = Some vol"
    and "entry \<noteq> 0" "sl \<noteq> 0" "vol \<noteq> 0"
  shows "risk_amount (calculate_risk_metrics t) = Some (\<bar>entry - sl\<bar> / pip_size t * vol * 10)"
    and "r_multiple (calculate_risk_metrics t) =
          (case gross_pnl t of
             None \<Rightarrow> r_multiple t
           | Some profit \<Rightarrow>
               if \<bar>entry - sl\<bar> / pip_size t * vol * 10 > 0
               then Some (profit / (\<bar>entry - sl\<bar> / pip_size t * vol * 10))
               else r_multiple t)"
    and "risk_reward (calculate_risk_metrics t) =
          (case take_profit t of
             None \<Rightarrow> risk_reward t
           | Some tp \<Rightarrow>
               if tp > 0 \<and> entry \<noteq> sl
               then Some ((\<bar>tp - entry\<bar> / pip_size t) / (\<bar>entry - sl\<bar> / pip_size t))
               else risk_reward t)"
  using assms pip_size_pos [of t]
  by (auto simp: calculate_risk_metrics_def truthy_def truediv_def Let_def pip_size_def
      split: option.splits)

lemma calc_unguarded:
  assumes "\<not> (truthy (entry_price t) \<and> truthy (stop_loss t) \<and> truthy (volume t))"
  shows "calculate_risk_metrics t = t"
  using assms by (auto simp: calculate_risk_metrics_def)


lemma calc_other_fields:
  "user_id (calculate_risk_metrics t) = user_id t"
  "account_id (calculate_risk_metrics t) = account_id t"
  "external_trade_id (calculate_risk_metrics t) = external_trade_id t"
  "symbol (calculate_risk_metrics t) = symbol t"
  "side (calculate_risk_metrics t) = side t"
  "volume (calculate_risk_metrics t) = volume t"
  "entry_price (calculate_risk_metrics t) = entry_price t"
  "entry_time (calculate_risk_metrics t) = entry_time t"
  "exit_price (calculate_risk_metrics t) = exit_price t"
  "exit_time (calculate_risk_metrics t) = exit_time t"
  "status (calculate_risk_metrics t) = status t"
  "source (calculate_risk_metrics t) = source t"
  "accuracy (calculate_risk_metrics t) = accuracy t"
  "trade_record.more (calculate_risk_metrics t) = trade_record.more t"
  by (simp_all add: calculate_risk_metrics_def Let_def truediv_def split: option.splits)

lemma calc_enriches:
  "(calculate_risk_metrics t)\<lparr> risk_amount := risk_amount t, r_multiple := r_multiple t,
       risk_reward := risk_reward t \<rparr> = t"
  by (rule trade_record.equality)
     (simp_all add: calc_other_fields calculate_risk_metrics_fields)


text \<open>
  C7, as amended.  The risk calculator only adds the three risk fields; it never fails.
  When entry price, stop-loss and volume are all present and none of them is zero, it sets
  \<open>risk_amount = (|entry_price - stop_loss| / pip) \<cdot> volume \<cdot> 10\<close>, with the pip 0.01 for a
  symbol that contains \<open>JPY\<close> and 0.0001 otherwise; it sets \<open>r_multiple\<close> to the gross result
  divided by the risk amount when the gross result is known and the risk amount is
  positive; it sets \<open>risk_reward = (|take_profit - entry_price| / pip) / pips_risked\<close> when
  the take-profit is present and positive and the entry price differs from the stop-loss.
  A field that is not set keeps what it had.  When one of the three inputs is missing or
  zero the record is returned as it is.
\<close>

theorem calculate_risk_metrics_result:
  "(\<forall>entry sl vol.
       entry_price t = Some entry \<and> stop_loss t = Some sl \<and> volume t = Some vol
       \<and> entry \<noteq> 0 \<and> sl \<noteq> 0 \<and> vol \<noteq> 0 \<longrightarrow>
       risk_amount (calculate_risk_metrics t) = Some (\<bar>entry - sl\<bar> / pip_size t * vol * 10)
       \<and> r_multiple (calculate_risk_metrics t) =
            (case gross_pnl t of
               None \<Rightarrow> r_multiple t
             | Some profit \<Rightarrow>
                 if \<bar>entry - sl\<bar> / pip_size t * vol * 10 > 0
                 then Some (profit / (\<bar>entry - sl\<bar> / pip_size t * vol * 10))
                 else r_multiple t)
       \<and> risk_reward (calculate_risk_metrics t) =
            (case take_profit t of
               None \<Rightarrow> risk_reward t
             | Some tp \<Rightarrow>
                 if tp > 0 \<and> entry \<noteq> sl
                 then Some ((\<bar>tp - entry\<bar> / pip_size t) / (\<bar>entry - sl\<bar> / pip_size t))
                 else risk_reward t))
   \<and> (\<not> (truthy (entry_price t) \<and> truthy (stop_loss t) \<and> truthy (volume t))
          \<longrightarrow> calculate_risk_metrics t = t)
   \<and> (calculate_risk_metrics t)\<lparr> risk_amount := risk_amount t, r_multiple := r_multiple t,
          risk_reward := risk_reward t \<rparr> = t"
  using calc_guarded [of t] calc_unguarded [of t] calc_enriches [of t]
  by blast

theorem calculate_risk_metrics_result_witness:
  "entry_price trade_eurusd = Some 1.1 \<and> stop_loss trade_eurusd = Some 1.098
   \<and> volume trade_eurusd = Some 0.1 \<and> take_profit trade_eurusd = Some 1.105
   \<and> gross_pnl trade_eurusd = Some 20 \<and> pip_size trade_eurusd = 0.0001
   \<and> risk_amount (calculate_risk_metrics trade_eurusd) = Some 20
   \<and> r_multiple (calculate_risk_metrics trade_eurusd) = Some 1
   \<and> risk_reward (calculate_risk_metrics trade_eurusd) = Some 2.5
   \<and> pip_size trade_usdjpy = 0.01
   \<and> risk_amount (calculate_risk_metrics trade_usdjpy) = Some 500
   \<and> r_multiple (calculate_risk_metrics trade_usdjpy) = Some 0.1
   \<and> risk_reward (calculate_risk_metrics trade_usdjpy) = None
   \<and> \<not> truthy (stop_loss trade_no_stop)
   \<and> calculate_risk_metrics trade_no_stop = trade_no_stop"
proof -
  have e: "entry_price trade_eurusd = Some 1.1" "stop_loss trade_eurusd = Some 1.098"
    "volume trade_eurusd = Some 0.1" "take_profit trade_eurusd = Some 1.105"
    "gross_pnl trade_eurusd = Some 20" "pip_size trade_eurusd = 0.0001"
    "r_multiple trade_eurusd = None" "risk_reward trade_eurusd = None"
    by (simp_all add: trade_eurusd_def pip_size_def)
  have j: "entry_price trade_usdjpy = Some 110" "stop_loss trade_usdjpy = Some 109.5"
    "volume trade_usdjpy = Some 1" "take_profit trade_usdjpy = None"
    "gross_pnl trade_usdjpy = Some 50" "pip_size trade_usdjpy = 0.01"
    "r_multiple trade_usdjpy = None" "risk_reward trade_usdjpy = None"
    by (simp_all add: trade_usdjpy_def trade_eurusd_def pip_size_def)
  have n: "\<not> truthy (stop_loss trade_no_stop)"
    by (simp add: trade_no_stop_def truthy_def)
  have "risk_amount (calculate_risk_metrics trade_eurusd) = Some 20
      \<and> r_multiple (calculate_risk_metrics trade_eurusd) = Some 1
      \<and> risk_reward (calculate_risk_metrics trade_eurusd) = Some 2.5"
    using calculate_risk_metrics_result [of trade_eurusd, THEN conjunct1, rule_format,
        of "1.1" "1.098" "0.1"]
    by (simp add: e)
  moreover have "risk_amount (calculate_risk_metrics trade_usdjpy) = Some 500
      \<and> r_multiple (calculate_risk_metrics trade_usdjpy) = Some 0.1
      \<and> risk_reward (calculate_risk_metrics trade_usdjpy) = None"
    using calculate_risk_metrics_result [of trade_usdjpy, THEN conjunct1, rule_format,
        of "110" "109.5" "1"]
    by (simp add: j)
  moreover have "calculate_risk_metrics trade_no_stop = trade_no_stop"
    using calculate_risk_metrics_result [of trade_no_stop] n by simp
  ultimately show ?thesis
    using e j n by simp
qed

text \<open>
  C7 as stated fails.  With the stop at the entry price (and a positive take-profit) the
  risk amount is set to 0 and \<open>risk_reward\<close> is left out: the division by the zero pips at
  risk raises, and the exception is swallowed.  With an entry price of zero, stop-loss and
  volume present and not zero, no risk amount is set.
\<close>

theorem risk_metrics_counterexample:
  "entry_price trade_stop_at_entry = Some 1.1 \<and> stop_loss trade_stop_at_entry = Some 1.1
   \<and> volume trade_stop_at_entry = Some 0.1 \<and> take_profit trade_stop_at_entry = Some 1.105
   \<and> risk_amount (calculate_risk_metrics trade_stop_at_entry) = Some 0
   \<and> risk_reward (calculate_risk_metrics trade_stop_at_entry) = None
   \<and> entry_price trade_zero_entry = Some 0 \<and> stop_loss trade_zero_entry = Some 1.098
   \<and> volume trade_zero_entry = Some 0.1
   \<and> risk_amount (calculate_risk_metrics trade_zero_entry) = None"
  by (simp add: calculate_risk_metrics_def trade_stop_at_entry_def trade_zero_entry_def
      trade_eurusd_def truthy_def truediv_def Let_def)

section \<open>The read-through cache and its wait loop\<close>

lemma bitlen_le_iff: "bitlen n \<le> k \<longleftrightarrow> n < 2 ^ k"
proof (induction k arbitrary: n)
  case 0
  show ?case by (subst bitlen.simps) simp
next
  case (Suc k)
  have "bitlen n \<le> Suc k \<longleftrightarrow> n = 0 \<or> bitlen (n div 2) \<le> k"
    by (subst bitlen.simps) simp
  also have "\<dots> \<longleftrightarrow> n = 0 \<or> n div 2 < 2 ^ k"
    by (simp add: Suc.IH)
  also have "\<dots> \<longleftrightarrow> n < 2 ^ Suc k"
    by auto
  finally show ?case .
qed

lemma bitlen_in_range:
  assumes "2 ^ k \<le> n" "n < 2 ^ Suc k"
  shows "bitlen n = Suc k"
proof -
  have "bitlen n \<le> Suc k" using assms(2) by (simp only: bitlen_le_iff)
  moreover have "\<not> bitlen n \<le> k" using assms(1) by (simp add: bitlen_le_iff)
  ultimately show ?thesis by simp
qed

lemma round53_small: "n < 2 ^ 53 \<Longrightarrow> round53 n = n"
  using bitlen_le_iff [of n 53] by (simp add: round53_def)

lemma round53_in_range:
  assumes "2 ^ (52 + j) \<le> n" "n < 2 ^ (53 + j)" "0 < j"
  shows "round53 n =
     (if 2 * (n mod 2 ^ j) < 2 ^ j then n div 2 ^ j * 2 ^ j
      else if 2 ^ j < 2 * (n mod 2 ^ j) then (n div 2 ^ j + 1) * 2 ^ j
      else if even (n div 2 ^ j) then n div 2 ^ j * 2 ^ j else (n div 2 ^ j + 1) * 2 ^ j)"
proof -
  have "bitlen n = 53 + j"
    using bitlen_in_range [of "52 + j" n] assms by simp
  then show ?thesis
    using assms(3) by (simp add: round53_def Let_def)
qed

lemmas round53_ranges =
  round53_small [simplified]
  round53_in_range [of 1, simplified]
  round53_in_range [of 2, simplified]
  round53_in_range [of 3, simplified]
  round53_in_range [of 4, simplified]
  round53_in_range [of 5, simplified]
  round53_in_range [of 6, simplified]
  round53_in_range [of 7, simplified]

lemma float_add_first: "float_add 0 wait_interval = 7205759403792794"
  by (simp add: float_add_def wait_interval_def round53_ranges)

lemma loop_runs_101: "loop_runs 101 0"
  by (simp add: loop_runs.simps float_add_def wait_interval_def max_wait_def round53_ranges)


lemma wait_for_cache_runs:
  "loop_runs n waited \<Longrightarrow> wait_for_cache seen uid waited k = Some (first_fresh seen uid n k)"
proof (induction n arbitrary: waited k)
  case 0
  then have "\<not> waited < max_wait" by (simp add: loop_runs.simps)
  then show ?case by (subst wait_for_cache.simps) simp
next
  case (Suc n)
  then have w: "waited < max_wait" and r: "loop_runs n (float_add waited wait_interval)"
    by (simp_all add: loop_runs.simps [of "Suc n"])
  show ?case
    using w Suc.IH [OF r, of "Suc k"]
    by (subst wait_for_cache.simps) (simp split: option.splits)
qed

lemma wait_for_cache_result:
  "wait_for_cache seen uid 0 0 = Some (first_fresh seen uid 101 0)"
  by (rule wait_for_cache_runs) (rule loop_runs_101)

lemma put_wait_room:
  "length q < queue_maxsize \<Longrightarrow> put_wait queue_at j q = Some q"
  by (subst put_wait.simps) simp

lemma put_wait_resumed:
  assumes "queue_maxsize \<le> length q"
    and "\<And>i. j < i \<Longrightarrow> i < j + n \<Longrightarrow> queue_maxsize \<le> length (queue_at i)"
    and "0 < n" "length (queue_at (j + n)) < queue_maxsize"
  shows "put_wait queue_at j q = Some (queue_at (j + n))"
  using assms
proof (induction n arbitrary: j q)
  case 0
  then show ?case by simp
next
  case (Suc n)
  show ?case
  proof (cases "n = 0")
    case True
    then have "put_wait queue_at (Suc j) (queue_at (Suc j)) = Some (queue_at (Suc j))"
      using Suc.prems(4) by (simp add: put_wait_room)
    then show ?thesis
      using Suc.prems(1) True by (subst put_wait.simps) simp
  next
    case False
    have "put_wait queue_at (Suc j) (queue_at (Suc j)) = Some (queue_at (Suc j + n))"
    proof (rule Suc.IH)
      show "queue_maxsize \<le> length (queue_at (Suc j))"
        using False by (intro Suc.prems(2)) simp_all
      show "queue_maxsize \<le> length (queue_at i)" if "Suc j < i" "i < Suc j + n" for i
        using that by (intro Suc.prems(2)) simp_all
      show "0 < n" using False by simp
      show "length (queue_at (Suc j + n)) < queue_maxsize"
        using Suc.prems(4) by simp
    qed
    then show ?thesis
      using Suc.prems(1) by (subst put_wait.simps) simp
  qed
qed

lemma put_wait_never:
  assumes "put_wait queue_at j q = Some r"
  shows "\<not> (queue_maxsize \<le> length q \<and> (\<forall>i. j < i \<longrightarrow> queue_maxsize \<le> length (queue_at i)))"
proof (rule put_wait.raw_induct
    [where P = "\<lambda>queue_at j q r. \<not> (queue_maxsize \<le> length q
                  \<and> (\<forall>i. j < i \<longrightarrow> queue_maxsize \<le> length (queue_at i)))"])
  show "put_wait queue_at j q = Some r" by (rule assms)
next
  fix f :: "(nat \<Rightarrow> request list) \<Rightarrow> nat \<Rightarrow> request list \<Rightarrow> request list option"
    and qa j q r
  assume ih: "\<And>qa j q r. f qa j q = Some r \<Longrightarrow>
      \<not> (queue_maxsize \<le> length q \<and> (\<forall>i. j < i \<longrightarrow> queue_maxsize \<le> length (qa i)))"
    and body: "(if queue_maxsize \<le> length q then f qa (Suc j) (qa (Suc j)) else Some q) = Some r"
  show "\<not> (queue_maxsize \<le> length q \<and> (\<forall>i. j < i \<longrightarrow> queue_maxsize \<le> length (qa i)))"
  proof
    assume full: "queue_maxsize \<le> length q \<and> (\<forall>i. j < i \<longrightarrow> queue_maxsize \<le> length (qa i))"
    then have "f qa (Suc j) (qa (Suc j)) = Some r"
      using body by simp
    then have "\<not> (queue_maxsize \<le> length (qa (Suc j))
        \<and> (\<forall>i. Suc j < i \<longrightarrow> queue_maxsize \<le> length (qa i)))"
      by (rule ih)
    then show False
      using full by simp
  qed
qed

lemma put_wait_suspended:
  assumes "queue_maxsize \<le> length q"
    and "\<And>i. j < i \<Longrightarrow> queue_maxsize \<le> length (queue_at i)"
  shows "put_wait queue_at j q = None"
proof (cases "put_wait queue_at j q")
  case None
  then show ?thesis .
next
  case (Some r)
  then show ?thesis
    using put_wait_never [OF Some] assms by blast
qed

lemma get_positions_hit:
  assumes "cached_fresh (cache s) (req_user_id req) (now s) = Some cached_positions"
  shows "get_positions seen queue_at req s = Some (Returned cached_positions s)"
  using assms by (simp add: get_positions_def)

lemma get_positions_miss:
  assumes "cached_fresh (cache s) (req_user_id req) (now s) = None"
    and "length (request_queue s) < queue_maxsize"
  shows "get_positions seen queue_at req s =
           Some (Returned (first_fresh seen (req_user_id req) 101 0)
                   (s\<lparr> request_queue := request_queue s @ [req] \<rparr>))"
  using assms by (simp add: get_positions_def wait_for_cache_result put_wait_room)

lemma get_positions_resumed:
  assumes "cached_fresh (cache s) (req_user_id req) (now s) = None"
    and "queue_maxsize \<le> length (request_queue s)"
    and "\<And>i. 0 < i \<Longrightarrow> i < n \<Longrightarrow> queue_maxsize \<le> length (queue_at i)"
    and "0 < n" "length (queue_at n) < queue_maxsize"
  shows "get_positions seen queue_at req s =
           Some (Returned (first_fresh seen (req_user_id req) 101 0)
                   (s\<lparr> request_queue := queue_at n @ [req] \<rparr>))"
proof -
  have "put_wait queue_at 0 (request_queue s) = Some (queue_at (0 + n))"
    by (rule put_wait_resumed) (simp_all add: assms)
  then show ?thesis
    using assms(1) by (simp add: get_positions_def wait_for_cache_result)
qed

lemma get_positions_suspended:
  assumes "cached_fresh (cache s) (req_user_id req) (now s) = None"
    and "queue_maxsize \<le> length (request_queue s)"
    and "\<And>i. 0 < i \<Longrightarrow> queue_maxsize \<le> length (queue_at i)"
  shows "get_positions seen queue_at req s = None"
proof -
  have "put_wait queue_at 0 (request_queue s) = None"
    by (rule put_wait_suspended) (simp_all add: assms)
  then show ?thesis
    using assms(1) by (simp add: get_positions_def)
qed

lemma first_fresh_first:
  assumes "cached_fresh (fst (seen (Suc k))) uid (snd (seen (Suc k))) = Some cached_positions"
  shows "first_fresh seen uid (Suc n) k = cached_positions"
  using assms by simp

lemma first_fresh_skip:
  assumes "\<And>j. k < j \<Longrightarrow> j \<le> k + m \<Longrightarrow> cached_fresh (fst (seen j)) uid (snd (seen j)) = None"
  shows "first_fresh seen uid (m + n) k = first_fresh seen uid n (k + m)"
  using assms
proof (induction m arbitrary: k)
  case 0
  show ?case by simp
next
  case (Suc m)
  have "cached_fresh (fst (seen (Suc k))) uid (snd (seen (Suc k))) = None"
    by (rule Suc.prems) simp_all
  moreover have "first_fresh seen uid (m + n) (Suc k) = first_fresh seen uid n (Suc k + m)"
    by (rule Suc.IH) (simp add: Suc.prems)
  ultimately show ?case by simp
qed

section \<open>A full queue\<close>

text \<open>
  C2, as amended.  When the caller misses the cache and the queue already holds its 100
  requests, the enqueue does not fail: the caller is suspended in \<open>put\<close>.  As long as every
  resumption finds the queue full, nothing is enqueued and nothing is returned, so a queue
  that never has room means a call that never returns.  At the first resumption that finds
  room the request is appended to the queue found there, and only then the cache wait
  starts: the call returns the positions of the first poll that finds a fresh entry, and
  the empty list when none of the polls does.
\<close>

theorem full_queue_suspends_caller:
  assumes "cached_fresh (cache s) (req_user_id req) (now s) = None"
    and "queue_maxsize \<le> length (request_queue s)"
  shows "((\<forall>i. 0 < i \<and> i < n \<longrightarrow> queue_maxsize \<le> length (queue_at i))
            \<and> 0 < n \<and> length (queue_at n) < queue_maxsize \<longrightarrow>
          get_positions seen queue_at req s =
            Some (Returned (first_fresh seen (req_user_id req) 101 0)
                    (s\<lparr> request_queue := queue_at n @ [req] \<rparr>)))
     \<and> ((\<forall>i. 0 < i \<longrightarrow> queue_maxsize \<le> length (queue_at i)) \<longrightarrow>
          get_positions seen queue_at req s = None)"
  using get_positions_resumed [OF assms, of n queue_at seen]
    get_positions_suspended [OF assms, of queue_at seen]
  by blast

theorem full_queue_suspends_caller_witness:
  "cached_fresh (cache full_state) (req_user_id request_u2) (now full_state) = None
   \<and> queue_maxsize \<le> length (request_queue full_state)
   \<and> queue_maxsize \<le> length (freed_at_2 1) \<and> length (freed_at_2 2) < queue_maxsize
   \<and> get_positions never_seen freed_at_2 request_u2 full_state =
        Some (Returned [] (full_state\<lparr> request_queue := replicate 99 request_u1 @ [request_u2] \<rparr>))
   \<and> get_positions never_seen never_freed request_u2 full_state = None"
proof -
  have m: "cached_fresh (cache full_state) (req_user_id request_u2) (now full_state) = None"
    by (simp add: cached_fresh_def full_state_def fresh_state_def)
  have f: "queue_maxsize \<le> length (request_queue full_state)"
    by (simp add: queue_maxsize_def full_state_def)
  have q1: "\<forall>i. 0 < i \<and> i < 2 \<longrightarrow> queue_maxsize \<le> length (freed_at_2 i)"
    by (simp add: freed_at_2_def queue_maxsize_def)
  have q2: "length (freed_at_2 2) < queue_maxsize" "queue_maxsize \<le> length (freed_at_2 1)"
    by (simp_all add: freed_at_2_def queue_maxsize_def)
  have q3: "\<forall>i. 0 < i \<longrightarrow> queue_maxsize \<le> length (never_freed i)"
    by (simp add: never_freed_def queue_maxsize_def)
  have miss: "cached_fresh (fst (never_seen j)) uid (snd (never_seen j)) = None" for j uid
    by (simp add: never_seen_def cached_fresh_def)
  have "first_fresh never_seen (req_user_id request_u2) (101 + 0) 0
          = first_fresh never_seen (req_user_id request_u2) 0 (0 + 101)"
    by (rule first_fresh_skip) (rule miss)
  then have e: "first_fresh never_seen (req_user_id request_u2) 101 0 = []"
    by simp
  have "get_positions never_seen freed_at_2 request_u2 full_state =
        Some (Returned [] (full_state\<lparr> request_queue := replicate 99 request_u1 @ [request_u2] \<rparr>))"
    using full_queue_suspends_caller [OF m f, of 2 freed_at_2 never_seen] q1 q2
    by (simp add: e) (simp add: freed_at_2_def)
  moreover have "get_positions never_seen never_freed request_u2 full_state = None"
    using full_queue_suspends_caller [OF m f, of 2 never_freed never_seen] q3 by blast
  ultimately show ?thesis
    using m f q2 by simp
qed

text \<open>
  C2 as stated fails.  With 100 requests queued and no cache entry for user \<open>u2\<close>: when the
  queue never has room the call never returns, so no empty list comes back; and when the
  first resumption finds room and the cache has a fresh entry at the first poll, the
  request is in the queue and the call returns that entry's position, not the empty list.
\<close>

theorem full_queue_counterexample:
  "length (request_queue full_state) = 100
   \<and> cache full_state (req_user_id request_u2) = None
   \<and> get_positions never_seen never_freed request_u2 full_state = None
   \<and> get_positions prompt_seen freed_at_1 request_u2 full_state =
        Some (Returned [format_position eurusd_snapshot]
                (full_state\<lparr> request_queue := replicate 99 request_u1 @ [request_u2] \<rparr>))"
proof -
  have m: "cached_fresh (cache full_state) (req_user_id request_u2) (now full_state) = None"
    by (simp add: cached_fresh_def full_state_def fresh_state_def)
  have f: "queue_maxsize \<le> length (request_queue full_state)"
    by (simp add: queue_maxsize_def full_state_def)
  have "get_positions never_seen never_freed request_u2 full_state = None"
    by (rule get_positions_suspended [OF m f]) (simp add: never_freed_def queue_maxsize_def)
  moreover have "first_fresh prompt_seen (req_user_id request_u2) (Suc 100) 0
      = [format_position eurusd_snapshot]"
    by (rule first_fresh_first)
       (simp add: prompt_seen_def cached_fresh_def cache_duration_def request_u2_def)
  then have "get_positions prompt_seen freed_at_1 request_u2 full_state =
        Some (Returned [format_position eurusd_snapshot]
                (full_state\<lparr> request_queue := freed_at_1 1 @ [request_u2] \<rparr>))"
    using get_positions_resumed [OF m f, of 1 freed_at_1 prompt_seen]
    by (simp add: freed_at_1_def queue_maxsize_def)
  ultimately show ?thesis
    by (simp add: freed_at_1_def) (simp add: full_state_def fresh_state_def)
qed

section \<open>The length of the cache wait\<close>

text \<open>
  C8.  The caller of a fresh manager misses the cache and is enqueued.  None of its first
  100 polls (10 s of sleeping) finds an entry; the entry for \<open>u1\<close> is written before the
  101st wake-up.  The call makes that 101st poll and returns the cached position: the
  accumulator \<^verbatim>\<open>waited\<close> is still below \<^verbatim>\<open>10.0\<close> after 100 additions of \<^verbatim>\<open>0.1\<close>.
\<close>

theorem wait_loop_polls_once_more:
  "cached_fresh (cache fresh_state) ''u1'' (now fresh_state) = None
   \<and> first_fresh late_seen ''u1'' 100 0 = []
   \<and> cached_fresh (fst (late_seen 101)) ''u1'' (snd (late_seen 101))
        = Some [format_position eurusd_snapshot]
   \<and> get_positions late_seen idle_queue request_u1 fresh_state =
        Some (Returned [format_position eurusd_snapshot]
                (fresh_state\<lparr> request_queue := [request_u1] \<rparr>))"
proof -
  have miss: "cached_fresh (fst (late_seen j)) ''u1'' (snd (late_seen j)) = None" if "j \<le> 100" for j
    using that by (simp add: late_seen_def cached_fresh_def)
  have hit: "cached_fresh (fst (late_seen 101)) ''u1'' (snd (late_seen 101))
        = Some [format_position eurusd_snapshot]"
    by (simp add: late_seen_def cached_fresh_def cache_duration_def)
  have a: "first_fresh late_seen ''u1'' (100 + 0) 0 = first_fresh late_seen ''u1'' 0 (0 + 100)"
    by (rule first_fresh_skip) (simp add: miss)
  have b: "first_fresh late_seen ''u1'' (100 + 1) 0 = first_fresh late_seen ''u1'' 1 (0 + 100)"
    by (rule first_fresh_skip) (simp add: miss)
  have c: "first_fresh late_seen ''u1'' (Suc 0) 100 = [format_position eurusd_snapshot]"
    using hit by simp
  have m0: "cached_fresh (cache fresh_state) (req_user_id request_u1) (now fresh_state) = None"
    by (simp add: cached_fresh_def fresh_state_def)
  have room: "length (request_queue fresh_state) < queue_maxsize"
    by (simp add: fresh_state_def queue_maxsize_def)
  have "get_positions late_seen idle_queue request_u1 fresh_state =
        Some (Returned (first_fresh late_seen ''u1'' 101 0)
                (fresh_state\<lparr> request_queue := [request_u1] \<rparr>))"
    using get_positions_miss [OF m0 room, of late_seen idle_queue]
    by (simp add: request_u1_def fresh_state_def)
  then show ?thesis
    using a b c hit m0 by (simp add: request_u1_def)
qed

section \<open>The retries of the fetcher\<close>

lemma plain_simps [simp]:
  "plain []" "plain (es @ es') = (plain es \<and> plain es')"
  "plain (e # es) = (\<not> is_attempt e \<and> \<not> is_backoff e \<and> plain es)"
  by (auto simp: plain_def)

lemma warm_history_cache_events:
  "\<exists>es. events (warm_history_cache drv s) = events s @ es \<and> plain es"
proof (cases "case last_warmup s of None \<Rightarrow> False | Some t \<Rightarrow> now s - t < warmup_interval")
  case True
  then have "warm_history_cache drv s = s" by (simp add: warm_history_cache_def)
  then show ?thesis by simp
next
  case False
  then have "events (warm_history_cache drv s) =
      events s @ [DealsGet (now s - days 90) (now s), Sleep 300]"
    by (simp add: warm_history_cache_def history_deals_call_def sleep_def Let_def)
  then show ?thesis by simp
qed

lemma history_deals_call_events:
  "events (snd (history_deals_call drv a b s)) = events s @ [DealsGet a b]"
  by (simp add: history_deals_call_def)

lemma history_orders_call_events:
  "events (snd (history_orders_call drv a b s)) = events s @ [OrdersGet a b]"
  by (simp add: history_orders_call_def)

lemma get_sl_tp_from_orders_events:
  "\<exists>es. events (snd (get_sl_tp_from_orders drv ticket s)) = events s @ es \<and> plain es"
  by (simp add: get_sl_tp_from_orders_def Let_def history_orders_call_def split: option.splits)

lemma fetch_from_orders_events:
  "\<exists>es. events (snd (fetch_from_orders drv ticket s)) = events s @ es \<and> plain es"
  by (auto simp: fetch_from_orders_def Let_def history_orders_call_def history_deals_call_def
      split: option.splits prod.splits)

lemma fetch_from_deals_events:
  "\<exists>es. events (snd (fetch_from_deals drv ticket s)) = events s @ es \<and> plain es"
  by (auto simp: fetch_from_deals_def Let_def get_sl_tp_from_orders_def history_orders_call_def
      history_deals_call_def split: option.splits prod.splits)


lemma backoff_not_warmup: "nat (3000 * n) \<noteq> 300"
proof
  assume "nat (3000 * n) = 300"
  then have "3000 * n = 300" by linarith
  then have "10 * n = 1" by simp
  then show False by presburger
qed

lemma attempts_from_trace:
  "\<exists>k es. events (snd (attempts_from drv ticket m n s)) = events s @ es
      \<and> filter is_attempt es = map (\<lambda>i. Attempt ticket i m) [n..k]
      \<and> filter is_backoff es = map (\<lambda>i. Sleep (nat (3 * i * 1000))) [n..k - 1]
      \<and> (n \<le> m \<longrightarrow> n \<le> k \<and> k \<le> m) \<and> (m < n \<longrightarrow> k = n - 1)
      \<and> (fst (attempts_from drv ticket m n s) = None \<longrightarrow> k = max m (n - 1))"
  (is "?P n s")
proof (induction n s rule: attempts_induct [where m = m])
  case (1 n s)
  show ?case
  proof (cases "n \<le> m")
    case False
    then have r: "attempts_from drv ticket m n s = (None, s)"
      by (subst attempts_from_step) simp
    show ?thesis
      using False by (intro exI [of _ "n - 1"] exI [of _ "[]"]) (simp add: r)
  next
    case True
    define s1 where
      "s1 = warm_history_cache drv (s\<lparr> events := events s @ [Attempt ticket n m] \<rparr>)"
    obtain e1 where e1: "events s1 = events s @ Attempt ticket n m # e1" "plain e1"
      using warm_history_cache_events [of drv "s\<lparr> events := events s @ [Attempt ticket n m] \<rparr>"]
      unfolding s1_def by auto
    obtain found s2 where fd: "fetch_from_deals drv ticket s1 = (found, s2)"
      by (cases "fetch_from_deals drv ticket s1")
    obtain e2 where e2: "events s2 = events s1 @ e2" "plain e2"
      using fetch_from_deals_events [of drv ticket s1] by (auto simp: fd)
    obtain found' s3 where fo: "fetch_from_orders drv ticket s2 = (found', s3)"
      by (cases "fetch_from_orders drv ticket s2")
    obtain e3 where e3: "events s3 = events s2 @ e3" "plain e3"
      using fetch_from_orders_events [of drv ticket s2] by (auto simp: fo)
    have one: "[n..n] = [n]" "[n..n - 1] = []" by simp_all
    have step: "attempts_from drv ticket m n s =
        (case found of
           Some dat \<Rightarrow> (Some dat, s2)
         | None \<Rightarrow>
             (case found' of
                Some dat \<Rightarrow> (Some dat, s3)
              | None \<Rightarrow>
                  if n < m
                  then attempts_from drv ticket m (n + 1) (sleep (nat (3 * n * 1000)) s3)
                  else (None, s3)))"
      using True
      by (subst attempts_from_step) (simp add: s1_def [symmetric] fd fo split: option.splits)
    show ?thesis
    proof (cases found)
      case (Some dat)
      then have r: "attempts_from drv ticket m n s = (Some dat, s2)"
        by (simp add: step)
      show ?thesis
        using True e1 e2
        by (intro exI [of _ n] exI [of _ "Attempt ticket n m # e1 @ e2"])
           (simp add: r one plain_def)
    next
      case None
      note dn = this
      show ?thesis
      proof (cases found')
        case (Some dat)
        then have r: "attempts_from drv ticket m n s = (Some dat, s3)"
          using dn by (simp add: step)
        show ?thesis
          using True e1 e2 e3
          by (intro exI [of _ n] exI [of _ "Attempt ticket n m # e1 @ e2 @ e3"])
             (simp add: r one plain_def)
      next
        case None
        show ?thesis
        proof (cases "n < m")
          case False
          then have r: "attempts_from drv ticket m n s = (None, s3)"
            using dn None by (simp add: step)
          have ev: "events (snd (attempts_from drv ticket m n s)) =
                      events s @ Attempt ticket n m # e1 @ e2 @ e3"
            by (simp add: r e1 e2 e3)
          have k: "n = max m (n - 1)" using True False by simp
          have fl: "filter is_attempt (Attempt ticket n m # e1 @ e2 @ e3) = [Attempt ticket n m]"
            "filter is_backoff (Attempt ticket n m # e1 @ e2 @ e3) = []"
            using e1 e2 e3 by (simp_all add: plain_def)
          show ?thesis
            using True k
            by (intro exI [of _ n] exI [of _ "Attempt ticket n m # e1 @ e2 @ e3"])
               (simp only: ev fl one, simp)
        next
          case less: True
          define s4 where "s4 = sleep (nat (3 * n * 1000)) s3"
          have r: "attempts_from drv ticket m n s = attempts_from drv ticket m (n + 1) s4"
            using less dn None by (simp add: step s4_def)
          have e4: "events s4 = events s3 @ [Sleep (nat (3 * n * 1000))]"
            by (simp add: s4_def sleep_def)
          obtain k es where ih:
            "events (snd (attempts_from drv ticket m (n + 1) s4)) = events s4 @ es"
            "filter is_attempt es = map (\<lambda>i. Attempt ticket i m) [n + 1..k]"
            "filter is_backoff es = map (\<lambda>i. Sleep (nat (3 * i * 1000))) [n + 1..k - 1]"
            "n + 1 \<le> k" "k \<le> m"
            "fst (attempts_from drv ticket m (n + 1) s4) = None \<longrightarrow> k = max m (n + 1 - 1)"
            using "1" [OF less, of s4] less by auto
          have u1: "[n..k] = n # [n + 1..k]"
            using ih(4) by (simp add: upto_rec1)
          have u2: "[n..k - 1] = n # [n + 1..k - 1]"
            using ih(4) by (simp add: upto_rec1)
          show ?thesis
            using True less ih e1 e2 e3 e4
            by (intro exI [of _ k]
                  exI [of _ "Attempt ticket n m # e1 @ e2 @ e3 @ Sleep (nat (3 * n * 1000)) # es"])
               (simp add: r u1 u2 plain_def backoff_not_warmup)
        qed
      qed
    qed
  qed
qed


text \<open>
  C3.  A call of \<open>get_closed_position_data\<close> with \<open>m\<close> retries logs the attempts
  \<open>1, \<dots>, k\<close> for some \<open>k\<close> that is at most \<open>m\<close>, and between them backs off for \<open>3 \<cdot> 1\<close>, \<dots>,
  \<open>3 \<cdot> (k - 1)\<close> seconds (3 s, then 6 s, when \<open>m\<close> is 3); it returns \<open>None\<close> only after all
  \<open>m\<close> attempts.  Attempt \<open>n\<close> warms the cache, asks the deals source and returns its
  result when there is one, otherwise asks the orders source and returns its result when
  there is one; when both have nothing it sleeps \<open>3 \<cdot> n\<close> seconds and goes on with attempt
  \<open>n + 1\<close> if \<open>n < m\<close>, and returns \<open>None\<close> if \<open>n = m\<close>.
\<close>

theorem get_closed_position_data_retries:
  "(\<exists>k es. events (snd (get_closed_position_data drv ticket m s)) = events s @ es
       \<and> filter is_attempt es = map (\<lambda>i. Attempt ticket i m) [1..k]
       \<and> filter is_backoff es = map (\<lambda>i. Sleep (nat (3 * i * 1000))) [1..k - 1]
       \<and> 0 \<le> k \<and> k \<le> max m 0
       \<and> (fst (get_closed_position_data drv ticket m s) = None \<longrightarrow> k = max m 0)
       \<and> (fst (get_closed_position_data drv ticket m s) \<noteq> None \<longrightarrow> 1 \<le> k))
   \<and> get_closed_position_data drv ticket m s = attempts_from drv ticket m 1 s
   \<and> (\<forall>n s'. 1 \<le> n \<and> n \<le> m \<longrightarrow>
         attempts_from drv ticket m n s' =
           (case fetch_from_deals drv ticket
                   (warm_history_cache drv (s'\<lparr> events := events s' @ [Attempt ticket n m] \<rparr>)) of
              (Some dat, s2) \<Rightarrow> (Some dat, s2)
            | (None, s2) \<Rightarrow>
                (case fetch_from_orders drv ticket s2 of
                   (Some dat, s3) \<Rightarrow> (Some dat, s3)
                 | (None, s3) \<Rightarrow>
                     if n < m
                     then attempts_from drv ticket m (n + 1) (sleep (nat (3 * n * 1000)) s3)
                     else (None, s3))))
   \<and> (\<forall>n s'. m < n \<longrightarrow> attempts_from drv ticket m n s' = (None, s'))"
proof (intro conjI allI impI)
  obtain k es where t:
    "events (snd (attempts_from drv ticket m 1 s)) = events s @ es"
    "filter is_attempt es = map (\<lambda>i. Attempt ticket i m) [1..k]"
    "filter is_backoff es = map (\<lambda>i. Sleep (nat (3 * i * 1000))) [1..k - 1]"
    "1 \<le> m \<longrightarrow> 1 \<le> k \<and> k \<le> m" "m < 1 \<longrightarrow> k = 1 - 1"
    "fst (attempts_from drv ticket m 1 s) = None \<longrightarrow> k = max m (1 - 1)"
    using attempts_from_trace [of drv ticket m 1 s] by (elim exE conjE) (rule that)
  have none: "m < 1 \<Longrightarrow> fst (attempts_from drv ticket m 1 s) = None"
    by (subst attempts_from_step) simp
  have "0 \<le> k \<and> k \<le> max m 0" using t(4,5) by (cases "1 \<le> m") auto
  moreover have "fst (attempts_from drv ticket m 1 s) \<noteq> None \<longrightarrow> 1 \<le> k"
    using t(4) none by (cases "1 \<le> m") auto
  ultimately show "\<exists>k es. events (snd (get_closed_position_data drv ticket m s)) = events s @ es
       \<and> filter is_attempt es = map (\<lambda>i. Attempt ticket i m) [1..k]
       \<and> filter is_backoff es = map (\<lambda>i. Sleep (nat (3 * i * 1000))) [1..k - 1]
       \<and> 0 \<le> k \<and> k \<le> max m 0
       \<and> (fst (get_closed_position_data drv ticket m s) = None \<longrightarrow> k = max m 0)
       \<and> (fst (get_closed_position_data drv ticket m s) \<noteq> None \<longrightarrow> 1 \<le> k)"
    using t(1,2,3,6)
    by (intro exI [of _ k] exI [of _ es]) (simp add: get_closed_position_data_def)
next
  show "get_closed_position_data drv ticket m s = attempts_from drv ticket m 1 s"
    by (simp add: get_closed_position_data_def)
next
  fix n s'
  assume "1 \<le> n \<and> n \<le> m"
  then show "attempts_from drv ticket m n s' =
           (case fetch_from_deals drv ticket
                   (warm_history_cache drv (s'\<lparr> events := events s' @ [Attempt ticket n m] \<rparr>)) of
              (Some dat, s2) \<Rightarrow> (Some dat, s2)
            | (None, s2) \<Rightarrow>
                (case fetch_from_orders drv ticket s2 of
                   (Some dat, s3) \<Rightarrow> (Some dat, s3)
                 | (None, s3) \<Rightarrow>
                     if n < m
                     then attempts_from drv ticket m (n + 1) (sleep (nat (3 * n * 1000)) s3)
                     else (None, s3)))"
    by (subst attempts_from_step) simp
next
  fix n s'
  assume "m < n"
  then show "attempts_from drv ticket m n s' = (None, s')"
    by (subst attempts_from_step) simp
qed

theorem get_closed_position_data_retries_witness:
  "fst (get_closed_position_data quiet_driver 1 3 fresh_state) = None
   \<and> filter is_attempt (events (snd (get_closed_position_data quiet_driver 1 3 fresh_state)))
        = [Attempt 1 1 3, Attempt 1 2 3, Attempt 1 3 3]
   \<and> filter is_backoff (events (snd (get_closed_position_data quiet_driver 1 3 fresh_state)))
        = [Sleep 3000, Sleep 6000]
   \<and> (1::int) \<le> 3 \<and> (3::int) \<le> 3
   \<and> fst (attempts_from quiet_driver 1 3 3 fresh_state) = None
   \<and> (3::int) < 4
   \<and> attempts_from quiet_driver 1 3 4 fresh_state = (None, fresh_state)"
proof -
  note inst = get_closed_position_data_retries [of quiet_driver 1 3 fresh_state]
  have n: "fst (get_closed_position_data quiet_driver 1 3 fresh_state) = None"
    by (rule quiet_fetch)
  obtain k es where t:
    "events (snd (get_closed_position_data quiet_driver 1 3 fresh_state)) = events fresh_state @ es"
    "filter is_attempt es = map (\<lambda>i. Attempt 1 i 3) [1..k]"
    "filter is_backoff es = map (\<lambda>i. Sleep (nat (3 * i * 1000))) [1..k - 1]"
    "fst (get_closed_position_data quiet_driver 1 3 fresh_state) = None \<longrightarrow> k = max 3 0"
    using inst by (elim exE conjE) (rule that)
  have k: "k = 3" using t(4) n by simp
  have e: "events fresh_state = []" by (simp add: fresh_state_def)
  have a: "filter is_attempt (events (snd (get_closed_position_data quiet_driver 1 3 fresh_state)))
        = [Attempt 1 1 3, Attempt 1 2 3, Attempt 1 3 3]"
    using t(2) by (simp add: t(1) e k upto_rec1)
  have b: "filter is_backoff (events (snd (get_closed_position_data quiet_driver 1 3 fresh_state)))
        = [Sleep 3000, Sleep 6000]"
    using t(3) by (simp add: t(1) e k upto_rec1)
  have c: "attempts_from quiet_driver 1 3 4 fresh_state = (None, fresh_state)"
    using inst by simp
  have d: "fst (attempts_from quiet_driver 1 3 3 fresh_state) = None"
    by (rule attempts_from_no_history) (simp_all add: quiet_driver_def)
  show ?thesis
    using n a b c d by simp
qed

section \<open>The net result of an emitted trade record\<close>














end
